theory Spec2Isabelle
  imports Main "HOL-Library.AList" "HOL-Library.Multiset"
begin

section \<open>The media repository of nero (repo/repo.go)\<close>

text \<open>
  The repository keeps a map from identifiers to media entities, optionally mirrored in
  an index file of one JSON line per entity. Its operations touch the file system, the
  random generator and Go's unordered maps, so the model passes three things explicitly:
  \<^item> \<open>lib\<close>: the pure library functions the code calls (path handling, JSON, MIME
    detection), taken as parameters;
  \<^item> \<open>env\<close>: everything the operating system and the runtime decide during one call
    (which system call fails, the order a map is enumerated in, the random numbers, the
    fresh identifier);
  \<^item> \<open>world\<close>: the files and directories on disk, returned updated.
  Logging and the mutex are left out: a warning changes no result, and every operation
  is modelled as one atomic step.
\<close>

subsection \<open>Data\<close>

type_synonym path = string
type_synonym bytes = string

text \<open>A UUID is represented by its canonical text, so \<open>ID.String()\<close> is the identity.\<close>

type_synonym uuid = string

definition uuid_String :: "uuid \<Rightarrow> string" where
  "uuid_String u = u"

datatype Format = FormatUnknown | FormatImage | FormatAnimatedImage

text \<open>
  The two metadata shapes behind the \<open>meta.Metadata\<close> interface, as the API layer
  builds them; a nil interface is \<open>None\<close>.
\<close>

datatype Metadata =
    GenericMetadata (Source: string) (Artist: string) (ArtistLink: string)
  | AnimeMetadata (Name: string)

text \<open>
  Modelled from the spec: the declaration of \<open>media.Media\<close> (repo/media) is not among
  the sources. Its four fields are the ones repo.go reads and writes; their types are
  those of the spec's data model.
\<close>

record Media =
  ID :: uuid
  Format :: Format
  Path :: path
  Meta :: "Metadata option"

datatype error =
    ErrNotExist
  | ErrOS string
  | ErrUnsupported
  | ErrDuplicateID (dup_ID: string) (dup_Repo: string)
  | Wrap error string
  | Multi error error

text \<open>\<open>multierr.Append\<close>: nil is neutral, two errors are kept both.\<close>

fun multierr_Append :: "error option \<Rightarrow> error option \<Rightarrow> error option" where
  "multierr_Append None r = r"
| "multierr_Append l None = l"
| "multierr_Append (Some a) (Some b) = Some (Multi a b)"

text \<open>
  The struct \<open>Repository\<close>. The field \<open>items\<close> is a Go map: \<open>None\<close> is the nil map,
  \<open>Some al\<close> an allocated map with the entries \<open>al\<close> (an association list with
  distinct keys; the position of an entry carries no meaning, see \<open>range_map\<close>).
\<close>

record Repository =
  id' :: string
  path :: path
  lockPath :: path
  items :: "(uuid \<times> Media) list option"

record MIME =
  mime_String :: string
  mime_Extension :: string

record lib =
  filepath_IsAbs :: "path \<Rightarrow> bool"
  filepath_Abs :: "path \<Rightarrow> error + path"
  filepath_Join :: "path \<Rightarrow> path \<Rightarrow> path"
  filepath_Rel :: "path \<Rightarrow> path \<Rightarrow> error + path"
  json_Marshal :: "Media \<Rightarrow> error + bytes"
  json_Unmarshal :: "bytes \<Rightarrow> error + Media"
  mimetype_Detect :: "bytes \<Rightarrow> MIME"

text \<open>
  What the environment decides during one call. A write fault \<open>Some (n, e)\<close> is a short
  write: \<open>n\<close> bytes reach the file, then the error \<open>e\<close> is returned. The second argument
  of \<open>write_fault\<close> counts the writes made through one open file. A scan fault
  \<open>Some (k, e)\<close> stops the line scanner after \<open>k\<close> lines with the error \<open>e\<close> (a read
  error, or a line longer than the scanner's buffer).
\<close>

record env =
  open_fault :: "path \<Rightarrow> error option"
  write_fault :: "path \<Rightarrow> nat \<Rightarrow> (nat \<times> error) option"
  close_fault :: "path \<Rightarrow> error option"
  stat_fault :: "path \<Rightarrow> error option"
  mkdir_fault :: "path \<Rightarrow> error option"
  scan_fault :: "(nat \<times> error) option"
  map_iter :: "nat \<Rightarrow> nat"
  rand_src :: "nat \<Rightarrow> nat"
  uuid_New :: uuid

record world =
  files :: "path \<rightharpoonup> bytes"
  dirs :: "path set"

subsection \<open>The operating system\<close>

datatype flag = O_WRONLY | O_CREATE | O_APPEND | O_TRUNC | O_EXCL

record File =
  f_path :: path
  f_pos :: nat
  f_append :: bool
  f_writes :: nat

text \<open>
  \<open>os.Stat\<close>: nil when the path names a file or a directory, \<open>ErrNotExist\<close> when it
  names nothing, any other error when the environment says so.
\<close>

definition os_Stat :: "env \<Rightarrow> world \<Rightarrow> path \<Rightarrow> error option" where
  "os_Stat E w p =
     (case stat_fault E p of
        Some e \<Rightarrow> Some e
      | None \<Rightarrow> if files w p \<noteq> None \<or> p \<in> dirs w then None else Some ErrNotExist)"

text \<open>
  \<open>os.MkdirAll\<close>. Only the directory itself is recorded: no operation of the
  repository names one of its ancestors.
\<close>

definition os_MkdirAll :: "env \<Rightarrow> world \<Rightarrow> path \<Rightarrow> error option \<times> world" where
  "os_MkdirAll E w p =
     (case mkdir_fault E p of
        Some e \<Rightarrow> (Some e, w)
      | None \<Rightarrow> (None, w\<lparr>dirs := insert p (dirs w)\<rparr>))"

text \<open>
  \<open>os.OpenFile\<close> for writing. Without \<open>O_TRUNC\<close> an existing file keeps its content
  and is written from offset 0; with \<open>O_APPEND\<close> every write goes to the end.
\<close>

definition os_OpenFile :: "env \<Rightarrow> world \<Rightarrow> path \<Rightarrow> flag list \<Rightarrow> (error + File) \<times> world" where
  "os_OpenFile E w p fl =
     (let f = \<lparr>f_path = p, f_pos = 0, f_append = (O_APPEND \<in> set fl), f_writes = 0\<rparr> in
      case open_fault E p of
        Some e \<Rightarrow> (Inl e, w)
      | None \<Rightarrow>
          (case files w p of
             None \<Rightarrow>
               if O_CREATE \<in> set fl then (Inr f, w\<lparr>files := (files w)(p \<mapsto> [])\<rparr>)
               else (Inl ErrNotExist, w)
           | Some c \<Rightarrow>
               if O_CREATE \<in> set fl \<and> O_EXCL \<in> set fl then (Inl (ErrOS ''file exists''), w)
               else if O_TRUNC \<in> set fl then (Inr f, w\<lparr>files := (files w)(p \<mapsto> [])\<rparr>)
               else (Inr f, w)))"

text \<open>Writing \<open>b\<close> into the content \<open>c\<close> at offset \<open>pos\<close>; a gap is filled with zero bytes.\<close>

definition pwrite :: "bytes \<Rightarrow> nat \<Rightarrow> bytes \<Rightarrow> bytes" where
  "pwrite c pos b =
     take pos c @ replicate (pos - length c) (CHR 0x00) @ b @ drop (pos + length b) c"

definition content :: "world \<Rightarrow> path \<Rightarrow> bytes" where
  "content w p = (case files w p of None \<Rightarrow> [] | Some c \<Rightarrow> c)"

definition put_bytes :: "world \<Rightarrow> File \<Rightarrow> bytes \<Rightarrow> File \<times> world" where
  "put_bytes w f b =
     (let c = content w (f_path f);
          pos = (if f_append f then length c else f_pos f)
      in (f\<lparr>f_pos := pos + length b, f_writes := Suc (f_writes f)\<rparr>,
          w\<lparr>files := (files w)(f_path f \<mapsto> pwrite c pos b)\<rparr>))"

text \<open>\<open>f.Write(b)\<close>: all of \<open>b\<close>, or a prefix of it and an error.\<close>

definition File_Write :: "env \<Rightarrow> world \<Rightarrow> File \<Rightarrow> bytes \<Rightarrow> error option \<times> File \<times> world" where
  "File_Write E w f b =
     (case write_fault E (f_path f) (f_writes f) of
        None \<Rightarrow> (None, put_bytes w f b)
      | Some (n, e) \<Rightarrow> (Some e, put_bytes w f (take n b)))"

definition File_Close :: "env \<Rightarrow> File \<Rightarrow> error option" where
  "File_Close E f = close_fault E (f_path f)"

text \<open>
  The deferred function of every open file in repo.go:
  \<^verbatim>\<open>if err0 := f.Close(); err0 != nil { err = multierr.Append(err, errors.Wrap(err0, msg)) }\<close>
  It yields the value the variable \<open>err\<close> holds afterwards. That value is what the caller
  gets only where \<open>err\<close> is the function's named result.
\<close>

definition deferred_close :: "env \<Rightarrow> File \<Rightarrow> string \<Rightarrow> error option \<Rightarrow> error option" where
  "deferred_close E f msg err =
     (case File_Close E f of
        None \<Rightarrow> err
      | Some err0 \<Rightarrow> multierr_Append err (Some (Wrap err0 msg)))"

subsection \<open>Unordered maps and the random generator\<close>

text \<open>The callback of \<open>rand.Shuffle\<close> in \<open>Random\<close>: \<open>v[i], v[j] = v[j], v[i]\<close>.\<close>

definition swap :: "nat \<Rightarrow> nat \<Rightarrow> 'a list \<Rightarrow> 'a list" where
  "swap i j v = v[i := v ! j, j := v ! i]"

text \<open>
  \<open>rand.Shuffle(n, swap)\<close> is the Fisher-Yates loop: for \<open>i\<close> from \<open>n - 1\<close> down to 1 it
  draws \<open>j\<close> in \<open>[0, i]\<close> and calls \<open>swap(i, j)\<close>. The draw for \<open>i\<close> is \<open>rnd i\<close> reduced
  to that range. For \<open>n = 0\<close> and \<open>n = 1\<close> the loop does not run.
\<close>

fun Shuffle_loop :: "(nat \<Rightarrow> nat) \<Rightarrow> nat \<Rightarrow> 'a list \<Rightarrow> 'a list" where
  "Shuffle_loop rnd 0 v = v"
| "Shuffle_loop rnd (Suc i) v = Shuffle_loop rnd i (swap (Suc i) (rnd (Suc i) mod (Suc i + 1)) v)"

definition rand_Shuffle :: "(nat \<Rightarrow> nat) \<Rightarrow> 'a list \<Rightarrow> 'a list" where
  "rand_Shuffle rnd v = Shuffle_loop rnd (length v - 1) v"

text \<open>
  \<open>for _, m := range r.items\<close>: Go enumerates a map in an order of the runtime's
  choosing. The model lets the environment pick any rearrangement of the entries.
\<close>

definition range_map :: "env \<Rightarrow> (uuid \<times> Media) list option \<Rightarrow> (uuid \<times> Media) list" where
  "range_map E mo = (case mo of None \<Rightarrow> [] | Some al \<Rightarrow> rand_Shuffle (map_iter E) al)"

definition maps_Values :: "env \<Rightarrow> (uuid \<times> Media) list option \<Rightarrow> Media list" where
  "maps_Values E mo = map snd (range_map E mo)"

subsection \<open>Writing the index\<close>

text \<open>
  The method \<open>write\<close> (here \<open>write'\<close>): one entity as one JSON line, its path
  relative to the repository's root when \<open>filepath.Rel\<close> can express it.
\<close>

definition write' :: "Repository \<Rightarrow> lib \<Rightarrow> env \<Rightarrow> world \<Rightarrow> File \<Rightarrow> Media \<Rightarrow> error option \<times> File \<times> world" where
  "write' r L E w f m =
     (let path0 = (case filepath_Rel L (path r) (Path m) of Inl err0 \<Rightarrow> Path m | Inr p \<Rightarrow> p) in
      case json_Marshal L \<lparr>ID = ID m, Format = Format m, Path = path0, Meta = Meta m\<rparr> of
        Inl err \<Rightarrow> (Some (Wrap err ''failed to serialize index item''), f, w)
      | Inr b \<Rightarrow>
          (case File_Write E w f (b @ [CHR 0x0A]) of
             (Some err, f', w') \<Rightarrow> (Some (Wrap err ''failed to write index item''), f', w')
           | (None, f', w') \<Rightarrow> (None, f', w')))"

text \<open>The loop of \<open>save\<close> over the entries of the map; it returns at the first error.\<close>

fun save_loop ::
  "Repository \<Rightarrow> lib \<Rightarrow> env \<Rightarrow> world \<Rightarrow> File \<Rightarrow> (uuid \<times> Media) list \<Rightarrow> error option \<times> File \<times> world" where
  "save_loop r L E w f [] = (None, f, w)"
| "save_loop r L E w f (km # rest) =
     (case write' r L E w f (snd km) of
        (Some err, f', w') \<Rightarrow> (Some err, f', w')
      | (None, f', w') \<Rightarrow> save_loop r L E w' f' rest)"

text \<open>
  \<open>save\<close> opens the index with \<open>O_WRONLY|O_CREATE\<close> and writes every entity. Its
  result \<open>err\<close> is named, so the deferred close reaches the caller.
\<close>

definition save :: "Repository \<Rightarrow> lib \<Rightarrow> env \<Rightarrow> world \<Rightarrow> error option \<times> world" where
  "save r L E w =
     (if lockPath r = [] then (None, w)
      else
        case os_OpenFile E w (lockPath r) [O_WRONLY, O_CREATE] of
          (Inl err, w1) \<Rightarrow> (Some (Wrap err ''failed to open index file''), w1)
        | (Inr f, w1) \<Rightarrow>
            (case save_loop r L E w1 f (range_map E (items r)) of
               (err, f', w2) \<Rightarrow> (deferred_close E f' ''failed to close index file'' err, w2)))"

text \<open>\<open>saveSingle\<close> opens the index with \<open>O_WRONLY|O_APPEND|O_CREATE\<close> and writes one entity.\<close>

definition saveSingle :: "Repository \<Rightarrow> lib \<Rightarrow> env \<Rightarrow> world \<Rightarrow> Media \<Rightarrow> error option \<times> world" where
  "saveSingle r L E w m =
     (if lockPath r = [] then (None, w)
      else
        case os_OpenFile E w (lockPath r) [O_WRONLY, O_APPEND, O_CREATE] of
          (Inl err, w1) \<Rightarrow> (Some (Wrap err ''failed to open index file''), w1)
        | (Inr f, w1) \<Rightarrow>
            (case write' r L E w1 f m of
               (err, f', w2) \<Rightarrow> (deferred_close E f' ''failed to close index file'' err, w2)))"

subsection \<open>The operations of the repository\<close>

definition NewMemory :: "string \<Rightarrow> Repository" where
  "NewMemory i = \<lparr>id' = i, path = [], lockPath = [], items = None\<rparr>"

definition Get :: "Repository \<Rightarrow> uuid \<Rightarrow> Media option" where
  "Get r i = (case items r of None \<Rightarrow> None | Some al \<Rightarrow> map_of al i)"

definition Items :: "Repository \<Rightarrow> env \<Rightarrow> Media list" where
  "Items r E = maps_Values E (items r)"

text \<open>
  \<open>Random\<close> enumerates the map with one order and shuffles with the generator; \<open>n\<close> is
  a Go \<open>int\<close>, and only its comparison with 0 and with the length is used.
\<close>

definition Random :: "Repository \<Rightarrow> env \<Rightarrow> int \<Rightarrow> Media list" where
  "Random r E n =
     (if n \<le> 0 then []
      else
        let v = rand_Shuffle (rand_src E) (Items r E) in
        if int (length v) > n then take (nat n) v else v)"

text \<open>
  \<open>Add\<close>. The entity is put into the map before the index is written, and stays there
  when the write fails.
\<close>

definition Add :: "Repository \<Rightarrow> lib \<Rightarrow> env \<Rightarrow> world \<Rightarrow> Media \<Rightarrow> error option \<times> Repository \<times> world" where
  "Add r L E w m =
     (let al = (case items r of None \<Rightarrow> [] | Some al \<Rightarrow> al) in
      if items r \<noteq> None \<and> map_of al (ID m) \<noteq> None
      then (Some (ErrDuplicateID (uuid_String (ID m)) (id' r)), r, w)
      else
        let r' = r\<lparr>items := Some (AList.update (ID m) m al)\<rparr> in
        case saveSingle r' L E w m of (err, w') \<Rightarrow> (err, r', w'))"

text \<open>\<open>Remove\<close>: \<open>delete\<close> on a nil map does nothing and leaves it nil.\<close>

definition Remove :: "Repository \<Rightarrow> lib \<Rightarrow> env \<Rightarrow> world \<Rightarrow> uuid \<Rightarrow> error option \<times> Repository \<times> world" where
  "Remove r L E w i =
     (let r' = r\<lparr>items := map_option (AList.delete i) (items r)\<rparr> in
      case save r' L E w of (err, w') \<Rightarrow> (err, r', w'))"

text \<open>The \<open>switch\<close> of \<open>Create\<close> on \<open>mime.String()\<close>; the default is the initial \<open>FormatUnknown\<close>.\<close>

definition Create_format :: "string \<Rightarrow> Format" where
  "Create_format s =
     (if s = ''image/jpeg'' \<or> s = ''image/png'' then FormatImage
      else if s = ''image/vnd.mozilla.apng'' \<or> s = ''image/gif'' \<or> s = ''image/webp''
      then FormatAnimatedImage
      else FormatUnknown)"

text \<open>
  \<open>Create\<close>. Its results are unnamed and \<open>err\<close> is a local variable: the deferred close
  assigns to \<open>err\<close> after the returned values have been fixed, so \<open>err_after_close\<close>
  below is computed and never returned.
\<close>

definition Create ::
  "Repository \<Rightarrow> lib \<Rightarrow> env \<Rightarrow> world \<Rightarrow> bytes \<Rightarrow> Metadata option \<Rightarrow>
     Media option \<times> error option \<times> Repository \<times> world" where
  "Create r L E w b m =
     (if path r = [] then (None, Some ErrUnsupported, r, w)
      else
        let i = uuid_New E;
            mime = mimetype_Detect L b;
            p = filepath_Join L (path r) (uuid_String i @ mime_Extension mime)
        in
        case os_OpenFile E w p [O_WRONLY, O_CREATE] of
          (Inl err, w1) \<Rightarrow> (None, Some (Wrap err ''failed to open file''), r, w1)
        | (Inr f, w1) \<Rightarrow>
            (case File_Write E w1 f b of
               (Some err, f', w2) \<Rightarrow>
                 (let err_after_close = deferred_close E f' ''failed to close file'' (Some err)
                  in (None, Some (Wrap err ''failed to write file''), r, w2))
             | (None, f', w2) \<Rightarrow>
                 (let m0 = \<lparr>ID = i, Format = Create_format (mime_String mime), Path = p, Meta = m\<rparr> in
                  case Add r L E w2 m0 of
                    (err, r', w3) \<Rightarrow>
                      (let err_after_close = deferred_close E f' ''failed to close file'' err
                       in (Some m0, err, r', w3)))))"

subsection \<open>Loading the index\<close>

definition dropCR :: "bytes \<Rightarrow> bytes" where
  "dropCR l = (if l \<noteq> [] \<and> last l = CHR 0x0D then butlast l else l)"

text \<open>
  \<open>bufio.ScanLines\<close>: the text up to each newline, without the newline and without one
  carriage return before it; text after the last newline is a line of its own.
\<close>

function ScanLines :: "bytes \<Rightarrow> bytes list" where
  "ScanLines [] = []"
| "ScanLines (c # cs) =
     dropCR (takeWhile (\<lambda>x. x \<noteq> CHR 0x0A) (c # cs))
       # ScanLines (drop 1 (dropWhile (\<lambda>x. x \<noteq> CHR 0x0A) (c # cs)))"
  by pat_completeness auto
termination
proof (relation "measure length", goal_cases)
  case 1
  show ?case by simp
next
  case (2 c cs)
  have "length (dropWhile (\<lambda>x. x \<noteq> CHR 0x0A) cs) \<le> length cs"
    by (rule length_dropWhile_le)
  then show ?case by (cases "c = CHR 0x0A") auto
qed

text \<open>
  The lines the scanner delivers from the index and the value of \<open>s.Err()\<close> after the
  loop. Reading a directory fails at once.
\<close>

definition scan :: "env \<Rightarrow> world \<Rightarrow> path \<Rightarrow> bytes list \<times> error option" where
  "scan E w p =
     (case files w p of
        None \<Rightarrow> ([], Some (ErrOS ''read failed''))
      | Some c \<Rightarrow>
          (case scan_fault E of
             None \<Rightarrow> (ScanLines c, None)
           | Some (k, e) \<Rightarrow> (take k (ScanLines c), Some e)))"

text \<open>\<open>os.Open\<close>: the index opened for reading.\<close>

definition os_Open :: "env \<Rightarrow> world \<Rightarrow> path \<Rightarrow> error option" where
  "os_Open E w p =
     (case open_fault E p of
        Some e \<Rightarrow> Some e
      | None \<Rightarrow> if files w p \<noteq> None \<or> p \<in> dirs w then None else Some ErrNotExist)"

text \<open>
  The body of the scanner loop of \<open>NewFile\<close>, over the lines still to come. \<open>root\<close> is
  the absolute path of the repository, \<open>al\<close> the map built so far.
\<close>

fun load_loop ::
  "lib \<Rightarrow> env \<Rightarrow> world \<Rightarrow> path \<Rightarrow> (uuid \<times> Media) list \<Rightarrow> bytes list \<Rightarrow> error + (uuid \<times> Media) list" where
  "load_loop L E w root al [] = Inr al"
| "load_loop L E w root al (l # ls) =
     (if l = [] then load_loop L E w root al ls
      else
        case json_Unmarshal L l of
          Inl err \<Rightarrow> Inl (Wrap err ''failed to read index file item'')
        | Inr m \<Rightarrow>
            if map_of al (ID m) \<noteq> None then load_loop L E w root al ls
            else
              let absPath = (if filepath_IsAbs L (Path m) then Path m
                             else filepath_Join L root (Path m)) in
              if os_Stat E w absPath = Some ErrNotExist then load_loop L E w root al ls
              else
                load_loop L E w root
                  (AList.update (ID m) \<lparr>ID = ID m, Format = Format m, Path = absPath, Meta = Meta m\<rparr> al)
                  ls)"

text \<open>
  \<open>NewFile\<close>. The \<open>err\<close> returned with the repository is the variable of the function's
  first lines, nil at that point; the \<open>err\<close> the deferred close assigns to is another
  variable, declared inside the \<open>if\<close>.
\<close>

definition NewFile ::
  "lib \<Rightarrow> env \<Rightarrow> world \<Rightarrow> string \<Rightarrow> path \<Rightarrow> path \<Rightarrow> (Repository option \<times> error option) \<times> world" where
  "NewFile L E w i path0 lockPath0 =
     (case (if filepath_IsAbs L path0 then Inr path0 else filepath_Abs L path0) of
        Inl err \<Rightarrow> ((None, Some (Wrap err ''failed to make repository path absolute'')), w)
      | Inr root \<Rightarrow>
          (case os_MkdirAll E w root of
             (Some err, w1) \<Rightarrow> ((None, Some (Wrap err ''failed to make repository directories'')), w1)
           | (None, w1) \<Rightarrow>
               if os_Stat E w1 lockPath0 = None then
                 (case os_Open E w1 lockPath0 of
                    Some err \<Rightarrow> ((None, Some (Wrap err ''failed to open index file'')), w1)
                  | None \<Rightarrow>
                      (case scan E w1 lockPath0 of
                         (ls, serr) \<Rightarrow>
                           (case load_loop L E w1 root [] ls of
                              Inl err \<Rightarrow> ((None, Some err), w1)
                            | Inr al \<Rightarrow>
                                (case serr of
                                   Some err \<Rightarrow> ((None, Some (Wrap err ''failed to read index file'')), w1)
                                 | None \<Rightarrow>
                                     ((Some \<lparr>id' = i, path = root, lockPath = lockPath0, items = Some al\<rparr>,
                                       None), w1)))))
               else
                 ((Some \<lparr>id' = i, path = root, lockPath = lockPath0, items = None\<rparr>, None), w1)))"

subsection \<open>Well-formed repositories and sequences of calls\<close>

text \<open>
  What a Go map guarantees by its type, and what \<open>Add\<close> and \<open>NewFile\<close> establish: no
  key occurs twice, and every entity is stored under its own identifier.
\<close>

definition repo_inv :: "Repository \<Rightarrow> bool" where
  "repo_inv r =
     (case items r of
        None \<Rightarrow> True
      | Some al \<Rightarrow> distinct (map fst al) \<and> list_all (\<lambda>km. ID (snd km) = fst km) al)"

text \<open>
  A caller's mutating calls, each with the environment it runs in; \<open>run_ops\<close> performs
  them one after the other, whatever each of them returns.
\<close>

datatype op =
    OpAdd env Media
  | OpRemove env uuid
  | OpCreate env bytes "Metadata option"

fun apply_op :: "lib \<Rightarrow> Repository \<times> world \<Rightarrow> op \<Rightarrow> Repository \<times> world" where
  "apply_op L (r, w) (OpAdd E m) = snd (Add r L E w m)"
| "apply_op L (r, w) (OpRemove E i) = snd (Remove r L E w i)"
| "apply_op L (r, w) (OpCreate E b md) = snd (snd (Create r L E w b md))"

definition run_ops :: "lib \<Rightarrow> Repository \<times> world \<Rightarrow> op list \<Rightarrow> Repository \<times> world" where
  "run_ops L rw ops = foldl (apply_op L) rw ops"

fun removes :: "uuid \<Rightarrow> op \<Rightarrow> bool" where
  "removes i (OpRemove E j) = (i = j)"
| "removes i _ = False"

subsection \<open>The reload as the specification words it\<close>

text \<open>
  The specification's reading of the reload, to compare \<open>load_loop\<close> with: blank lines
  are left out and the others decoded, the first failure being fatal; each record's path
  is resolved against the root; a record counts when its path exists on disk, whatever a
  system call may report; and an identifier maps to the first record that counts.
\<close>

definition blank :: "bytes \<Rightarrow> bool" where
  "blank l = list_all (\<lambda>c. c = CHR '' '' \<or> c = CHR 0x09 \<or> c = CHR 0x0D) l"

fun decode_all :: "lib \<Rightarrow> bytes list \<Rightarrow> error + Media list" where
  "decode_all L [] = Inr []"
| "decode_all L (l # ls) =
     (case json_Unmarshal L l of
        Inl e \<Rightarrow> Inl e
      | Inr m \<Rightarrow> (case decode_all L ls of Inl e \<Rightarrow> Inl e | Inr ms \<Rightarrow> Inr (m # ms)))"

definition resolve :: "lib \<Rightarrow> path \<Rightarrow> Media \<Rightarrow> Media" where
  "resolve L root m =
     \<lparr>ID = ID m, Format = Format m,
      Path = (if filepath_IsAbs L (Path m) then Path m else filepath_Join L root (Path m)),
      Meta = Meta m\<rparr>"

definition on_disk :: "world \<Rightarrow> path \<Rightarrow> bool" where
  "on_disk w p = (files w p \<noteq> None \<or> p \<in> dirs w)"

definition spec_reload :: "lib \<Rightarrow> world \<Rightarrow> path \<Rightarrow> Media list \<Rightarrow> uuid \<Rightarrow> Media option" where
  "spec_reload L w root ms i =
     List.find (\<lambda>m. ID m = i \<and> on_disk w (Path m)) (map (resolve L root) ms)"

text \<open>
  A path with an element \<open>.\<close> between two separators is not normalized:
  \<open>filepath.Clean\<close> removes every such element.
\<close>

fun has_dot_element :: "path \<Rightarrow> bool" where
  "has_dot_element (a # b # c # rest) =
     ((a = CHR ''/'' \<and> b = CHR ''.'' \<and> c = CHR ''/'') \<or> has_dot_element (b # c # rest))"
| "has_dot_element _ = False"

text \<open>
  The reload as \<open>NewFile\<close> decides it: a record counts unless \<open>os.Stat\<close> of its
  resolved path returns \<open>ErrNotExist\<close>.
\<close>

definition stat_reload :: "lib \<Rightarrow> env \<Rightarrow> world \<Rightarrow> path \<Rightarrow> Media list \<Rightarrow> uuid \<Rightarrow> Media option" where
  "stat_reload L E w root ms i =
     List.find (\<lambda>m. ID m = i \<and> os_Stat E w (Path m) \<noteq> Some ErrNotExist)
       (map (resolve L root) ms)"

subsection \<open>A small instance, for running the model\<close>

text \<open>
  Stand-ins for the library on Unix-like paths and a toy line format
  (\<open>id\<close>, a space, \<open>path\<close>), an environment in which nothing fails, and a repository
  \<open>r0\<close> of two entities whose index \<open>/idx\<close> holds their two lines, as two calls
  of \<open>Add\<close> leave it.
\<close>

definition lib0 :: lib where
  "lib0 = \<lparr>
     filepath_IsAbs = (\<lambda>p. take 1 p = ''/''),
     filepath_Abs = (\<lambda>p. Inr (''/cwd/'' @ p)),
     filepath_Join = (\<lambda>a b. a @ ''/'' @ b),
     filepath_Rel = (\<lambda>base t. if take (length base + 1) t = base @ ''/''
                       then Inr (drop (length base + 1) t) else Inl (ErrOS ''Rel'')),
     json_Marshal = (\<lambda>m. Inr (ID m @ '' '' @ Path m)),
     json_Unmarshal = (\<lambda>b. if CHR '' '' \<in> set b
                       then Inr \<lparr>ID = takeWhile (\<lambda>c. c \<noteq> CHR '' '') b, Format = FormatUnknown,
                                 Path = drop 1 (dropWhile (\<lambda>c. c \<noteq> CHR '' '') b), Meta = None\<rparr>
                       else Inl (ErrOS ''json'')),
     mimetype_Detect = (\<lambda>b. if take 3 b = ''GIF''
                        then \<lparr>mime_String = ''image/gif'', mime_Extension = ''.gif''\<rparr>
                        else \<lparr>mime_String = ''application/octet-stream'', mime_Extension = []\<rparr>)\<rparr>"

definition env0 :: env where
  "env0 = \<lparr>open_fault = (\<lambda>p. None), write_fault = (\<lambda>p k. None), close_fault = (\<lambda>p. None),
            stat_fault = (\<lambda>p. None), mkdir_fault = (\<lambda>p. None), scan_fault = None,
            map_iter = (\<lambda>i. i), rand_src = (\<lambda>i. 0), uuid_New = ''u3''\<rparr>"

definition mA :: Media where
  "mA = \<lparr>ID = ''u1'', Format = FormatUnknown, Path = ''/root/u1.png'', Meta = None\<rparr>"

definition mB :: Media where
  "mB = \<lparr>ID = ''u2'', Format = FormatUnknown, Path = ''/root/u2.png'', Meta = None\<rparr>"

definition r0 :: Repository where
  "r0 = \<lparr>id' = ''repo'', path = ''/root'', lockPath = ''/idx'',
          items = Some [(''u1'', mA), (''u2'', mB)]\<rparr>"

definition w0 :: world where
  "w0 = \<lparr>files = [''/idx'' \<mapsto> ''u1 u1.png'' @ [CHR 0x0A] @ ''u2 u2.png'' @ [CHR 0x0A],
                   ''/root/u1.png'' \<mapsto> ''x'', ''/root/u2.png'' \<mapsto> ''y''],
          dirs = {''/root''}\<rparr>"

definition mem0 :: Repository where
  "mem0 = (NewMemory ''mem'')\<lparr>items := Some [(''u1'', mA)]\<rparr>"

definition mC :: Media where
  "mC = \<lparr>ID = ''u3'', Format = FormatImage, Path = ''/root/u3.png'', Meta = None\<rparr>"

text \<open>
  The entity \<open>Create\<close> builds from the bytes \<open>GIF89a\<close> in \<open>env0\<close>; an environment in
  which the index cannot be opened; one in which closing the asset file fails; and a disk
  on which the asset's path is already taken.
\<close>

definition mG :: Media where
  "mG = \<lparr>ID = ''u3'', Format = FormatAnimatedImage, Path = ''/root/u3.gif'', Meta = None\<rparr>"

definition env_index_denied :: env where
  "env_index_denied =
     env0\<lparr>open_fault := (\<lambda>p. if p = ''/idx'' then Some (ErrOS ''permission denied'') else None)\<rparr>"

definition env_close_fails :: env where
  "env_close_fails =
     env0\<lparr>close_fault := (\<lambda>p. if p = ''/root/u3.gif'' then Some (ErrOS ''close failed'') else None)\<rparr>"

definition w_taken :: world where
  "w_taken = w0\<lparr>files := (files w0)(''/root/u3.gif'' \<mapsto> ''an older file'')\<rparr>"

text \<open>A disk with nothing on it.\<close>

definition w_fresh :: world where
  "w_fresh = \<lparr>files = Map.empty, dirs = {}\<rparr>"

text \<open>Environments in which the asset file cannot be opened, or takes three bytes only.\<close>

definition env_asset_denied :: env where
  "env_asset_denied =
     env0\<lparr>open_fault := (\<lambda>p. if p = ''/root/u3.gif'' then Some (ErrOS ''permission denied'') else None)\<rparr>"

definition env_disk_full :: env where
  "env_disk_full =
     env0\<lparr>write_fault := (\<lambda>p k. if p = ''/root/u3.gif'' then Some (3, ErrOS ''no space left'') else None)\<rparr>"

text \<open>
  A disk whose index has an empty line, a second record for \<open>u1\<close>, a record whose file
  is gone and a record with an absolute path; and one whose index has a line that does not
  decode.
\<close>

definition w_index :: world where
  "w_index = \<lparr>files = [''/idx'' \<mapsto> ''u1 u1.png'' @ [CHR 0x0A, CHR 0x0A] @ ''u1 other.png'' @ [CHR 0x0A]
                          @ ''u9 gone.png'' @ [CHR 0x0A] @ ''u2 /root/u2.png'' @ [CHR 0x0A],
                   ''/root/u1.png'' \<mapsto> ''x'', ''/root/u2.png'' \<mapsto> ''y'',
                   ''/root/other.png'' \<mapsto> ''z''],
          dirs = {''/root''}\<rparr>"

definition w_corrupt :: world where
  "w_corrupt = \<lparr>files = [''/idx'' \<mapsto> ''u1 u1.png'' @ [CHR 0x0A] @ ''garbage'' @ [CHR 0x0A],
                   ''/root/u1.png'' \<mapsto> ''x''],
          dirs = {''/root''}\<rparr>"

text \<open>
  Three more indexes. One has a line of a single space, read with a decoder that, as
  \<open>encoding/json\<close> does, rejects input of white space only. One names the path
  \<open>u1.png/x\<close>, below a regular file: nothing is there, and \<open>os.Stat\<close> fails with
  \<open>ENOTDIR\<close>, not with \<open>ErrNotExist\<close>. One names an existing file by an absolute path
  with a \<open>.\<close> element, which the operating system accepts as another name of that file.
\<close>

definition lib_json :: lib where
  "lib_json =
     lib0\<lparr>json_Unmarshal := (\<lambda>b. if blank b then Inl (ErrOS ''unexpected end of JSON input'')
                                 else json_Unmarshal lib0 b)\<rparr>"

definition w_space :: world where
  "w_space = \<lparr>files = [''/idx'' \<mapsto> ''u1 u1.png'' @ [CHR 0x0A] @ '' '' @ [CHR 0x0A],
                   ''/root/u1.png'' \<mapsto> ''x''],
          dirs = {''/root''}\<rparr>"

definition env_notdir :: env where
  "env_notdir =
     env0\<lparr>stat_fault := (\<lambda>p. if p = ''/root/u1.png/x'' then Some (ErrOS ''not a directory'')
                             else None)\<rparr>"

definition w_notdir :: world where
  "w_notdir = \<lparr>files = [''/idx'' \<mapsto> ''u9 u1.png/x'' @ [CHR 0x0A],
                   ''/root/u1.png'' \<mapsto> ''x''],
          dirs = {''/root''}\<rparr>"

definition w_dot :: world where
  "w_dot = \<lparr>files = [''/idx'' \<mapsto> ''u2 /root/./u2.png'' @ [CHR 0x0A],
                   ''/root/u2.png'' \<mapsto> ''y'', ''/root/./u2.png'' \<mapsto> ''y''],
          dirs = {''/root''}\<rparr>"

text \<open>
  The disk \<open>v\<close> on which the file \<open>p\<close> is followed by what the older content \<open>c\<close> has
  beyond its length: what writing from offset 0 into \<open>c\<close> without truncation leaves.
\<close>

definition stale :: "world \<Rightarrow> path \<Rightarrow> bytes \<Rightarrow> world" where
  "stale v p c = v\<lparr>files := (files v)(p \<mapsto> content v p @ drop (length (content v p)) c)\<rparr>"

text \<open>The disk of \<open>w0\<close> before any index was written.\<close>

definition w_assets :: world where
  "w_assets = \<lparr>files = [''/root/u1.png'' \<mapsto> ''x'', ''/root/u2.png'' \<mapsto> ''y''],
               dirs = {''/root''}\<rparr>"

section \<open>Properties\<close>

subsection \<open>Shuffling rearranges\<close>

lemma length_swap: "length (swap i j v) = length v"
  by (simp add: swap_def)

lemma mset_swap_in_range: "i < length v \<Longrightarrow> j < length v \<Longrightarrow> mset (swap i j v) = mset v"
  unfolding swap_def by (simp add: mset_swap)

lemma Shuffle_loop_mset: "i < length v \<Longrightarrow> mset (Shuffle_loop rnd i v) = mset v"
proof (induction i arbitrary: v)
  case 0
  show ?case by simp
next
  case (Suc i)
  have j: "rnd (Suc i) mod (Suc i + 1) < length v"
  proof -
    have "rnd (Suc i) mod (Suc i + 1) < Suc i + 1" by simp
    with Suc.prems show ?thesis by linarith
  qed
  have "mset (Shuffle_loop rnd i (swap (Suc i) (rnd (Suc i) mod (Suc i + 1)) v))
          = mset (swap (Suc i) (rnd (Suc i) mod (Suc i + 1)) v)"
    using Suc.prems by (intro Suc.IH) (simp add: length_swap)
  also have "\<dots> = mset v"
    using Suc.prems j by (rule mset_swap_in_range)
  finally show ?case by simp
qed

lemma rand_Shuffle_mset: "mset (rand_Shuffle rnd v) = mset v"
proof (cases v)
  case Nil
  then show ?thesis by (simp add: rand_Shuffle_def)
next
  case (Cons a as)
  then show ?thesis by (simp add: rand_Shuffle_def Shuffle_loop_mset)
qed

lemma rand_Shuffle_length: "length (rand_Shuffle rnd v) = length v"
  using rand_Shuffle_mset [of rnd v] by (metis size_mset)

lemma rand_Shuffle_set: "set (rand_Shuffle rnd v) = set v"
  using rand_Shuffle_mset [of rnd v] by (metis set_mset_mset)

lemma rand_Shuffle_distinct: "distinct (rand_Shuffle rnd v) = distinct v"
  using rand_Shuffle_mset [of rnd v] by (metis mset_eq_imp_distinct_iff)

lemma Items_mset: "mset (Items r E) = mset (Items r E')"
  by (cases "items r")
    (simp_all add: Items_def maps_Values_def range_map_def rand_Shuffle_mset)

lemma inv_values_distinct:
  assumes "distinct (map fst al)" and "list_all (\<lambda>km. ID (snd km) = fst km) al"
  shows "distinct (map snd al)"
proof -
  have "map fst al = map ID (map snd al)"
    using assms(2) by (induction al) auto
  with assms(1) show ?thesis by (metis distinct_map)
qed

lemma Items_distinct: "repo_inv r \<Longrightarrow> distinct (Items r E)"
proof (cases "items r")
  case None
  then show ?thesis by (simp add: Items_def maps_Values_def range_map_def)
next
  case (Some al)
  assume "repo_inv r"
  with Some have "distinct (map snd al)"
    by (simp add: repo_inv_def inv_values_distinct)
  moreover have "mset (Items r E) = mset (map snd al)"
    using Some by (simp add: Items_def maps_Values_def range_map_def rand_Shuffle_mset)
  ultimately show ?thesis by (metis mset_eq_imp_distinct_iff)
qed

subsection \<open>Random\<close>

text \<open>
  Claim C3. On a well-formed repository, \<open>Random n\<close> is empty for \<open>n \<le> 0\<close>; for
  \<open>0 < n \<le> |items|\<close> it has exactly \<open>n\<close> entities, pairwise distinct, all of them items
  of the repository; and for \<open>n > |items|\<close> it holds every item exactly once. The items
  and their number are taken from \<open>Items\<close> under any enumeration order \<open>E'\<close>.
\<close>

theorem Random_sample:
  assumes "repo_inv r"
  shows "(n \<le> 0 \<longrightarrow> Random r E n = [])
       \<and> (0 < n \<and> n \<le> int (length (Items r E')) \<longrightarrow>
            length (Random r E n) = nat n \<and> distinct (Random r E n)
            \<and> set (Random r E n) \<subseteq> set (Items r E'))
       \<and> (int (length (Items r E')) < n \<longrightarrow> mset (Random r E n) = mset (Items r E'))"
proof -
  let ?v = "rand_Shuffle (rand_src E) (Items r E)"
  have len: "length ?v = length (Items r E')"
    using Items_mset [of r E E'] by (metis rand_Shuffle_length size_mset)
  have ms: "mset ?v = mset (Items r E')"
    using Items_mset [of r E E'] by (simp add: rand_Shuffle_mset)
  have dist: "distinct ?v"
    using assms by (simp add: rand_Shuffle_distinct Items_distinct)
  have sub: "set ?v = set (Items r E')"
    using ms by (metis set_mset_mset)
  have a: "n \<le> 0 \<longrightarrow> Random r E n = []"
    by (simp add: Random_def)
  have b: "0 < n \<and> n \<le> int (length (Items r E')) \<longrightarrow>
            length (Random r E n) = nat n \<and> distinct (Random r E n)
            \<and> set (Random r E n) \<subseteq> set (Items r E')"
  proof
    assume h: "0 < n \<and> n \<le> int (length (Items r E'))"
    show "length (Random r E n) = nat n \<and> distinct (Random r E n)
            \<and> set (Random r E n) \<subseteq> set (Items r E')"
    proof (cases "int (length ?v) > n")
      case True
      then have R: "Random r E n = take (nat n) ?v"
        using h by (simp add: Random_def Let_def)
      have "length (take (nat n) ?v) = nat n" using True by simp
      moreover have "distinct (take (nat n) ?v)" using dist by simp
      moreover have "set (take (nat n) ?v) \<subseteq> set (Items r E')"
        using sub set_take_subset by fastforce
      ultimately show ?thesis using R by simp
    next
      case False
      then have R: "Random r E n = ?v"
        using h by (simp add: Random_def Let_def)
      have "length ?v = nat n" using False h len by linarith
      then show ?thesis using R dist sub by simp
    qed
  qed
  have c: "int (length (Items r E')) < n \<longrightarrow> mset (Random r E n) = mset (Items r E')"
  proof
    assume h: "int (length (Items r E')) < n"
    then have "Random r E n = ?v"
      using len by (simp add: Random_def Let_def)
    then show "mset (Random r E n) = mset (Items r E')" using ms by simp
  qed
  from a b c show ?thesis by blast
qed

theorem Random_sample_witness:
  "repo_inv r0 \<and> Random r0 env0 0 = []
   \<and> (0::int) < 1 \<and> (1::int) \<le> int (length (Items r0 env0))
   \<and> length (Random r0 env0 1) = 1 \<and> distinct (Random r0 env0 1)
   \<and> set (Random r0 env0 1) \<subseteq> set (Items r0 env0)
   \<and> int (length (Items r0 env0)) < 5 \<and> mset (Random r0 env0 5) = mset (Items r0 env0)"
proof -
  have inv: "repo_inv r0"
    by (simp add: repo_inv_def r0_def mA_def mB_def)
  have I: "Items r0 env0 = [mA, mB]"
    by (simp add: Items_def maps_Values_def range_map_def rand_Shuffle_def swap_def r0_def env0_def)
  from Random_sample [OF inv, of 0 env0 env0] Random_sample [OF inv, of 1 env0 env0]
    Random_sample [OF inv, of 5 env0 env0] inv I
  show ?thesis by simp
qed

subsection \<open>Add with an identifier already present\<close>

text \<open>
  Claim C2. When the identifier of \<open>m\<close> is already in the map, \<open>Add m\<close> returns the
  error \<open>ErrDuplicateID\<close> holding that identifier and the repository's, and the
  repository and the disk are what they were: \<open>Items\<close> and the index are unchanged.
\<close>

theorem Add_duplicate:
  assumes "Get r (ID m) \<noteq> None"
  shows "Add r L E w m = (Some (ErrDuplicateID (uuid_String (ID m)) (id' r)), r, w)"
  using assms by (cases "items r") (simp_all add: Add_def Get_def)

theorem Add_duplicate_witness:
  "Get r0 (ID mA) \<noteq> None
   \<and> Add r0 lib0 env0 w0 mA = (Some (ErrDuplicateID ''u1'' ''repo''), r0, w0)"
proof -
  have g: "Get r0 (ID mA) \<noteq> None"
    by (simp add: Get_def r0_def mA_def)
  have "uuid_String (ID mA) = ''u1''" and "id' r0 = ''repo''"
    by (simp_all add: uuid_String_def mA_def r0_def)
  with Add_duplicate [OF g, of lib0 env0 w0] g show ?thesis by simp
qed

subsection \<open>The format Create assigns\<close>

lemma Create_gif:
  "Create r0 lib0 env0 w0 ''GIF89a'' None =
   (Some \<lparr>ID = ''u3'', Format = FormatAnimatedImage, Path = ''/root/u3.gif'', Meta = None\<rparr>, None,
    r0\<lparr>items := Some [(''u1'', mA), (''u2'', mB),
        (''u3'', \<lparr>ID = ''u3'', Format = FormatAnimatedImage, Path = ''/root/u3.gif'', Meta = None\<rparr>)]\<rparr>,
    w0\<lparr>files := (files w0)(''/root/u3.gif'' \<mapsto> ''GIF89a'',
         ''/idx'' \<mapsto> ''u1 u1.png'' @ [CHR 0x0A] @ ''u2 u2.png'' @ [CHR 0x0A]
                      @ ''u3 u3.gif'' @ [CHR 0x0A])\<rparr>)"
  by (simp add: Create_def Let_def lib0_def env0_def r0_def w0_def uuid_String_def os_OpenFile_def
      File_Write_def put_bytes_def content_def pwrite_def Create_format_def Add_def mA_def mB_def
      saveSingle_def write'_def deferred_close_def File_Close_def)

text \<open>
  Claim C7. Whenever \<open>Create\<close> returns an entity, its format follows from the detected
  MIME string: \<open>image/jpeg\<close> and \<open>image/png\<close> give \<open>FormatImage\<close>;
  \<open>image/vnd.mozilla.apng\<close>, \<open>image/gif\<close> and \<open>image/webp\<close> give
  \<open>FormatAnimatedImage\<close>; every other string gives \<open>FormatUnknown\<close>.
\<close>

theorem Create_classifies:
  assumes "Create r L E w b md = (Some m0, err, r', w')"
  shows "Format m0 =
     (let s = mime_String (mimetype_Detect L b) in
      if s \<in> {''image/jpeg'', ''image/png''} then FormatImage
      else if s \<in> {''image/vnd.mozilla.apng'', ''image/gif'', ''image/webp''}
      then FormatAnimatedImage
      else FormatUnknown)"
  using assms
  by (auto simp: Create_def Let_def Create_format_def
      split: if_splits prod.splits sum.splits option.splits)

theorem Create_classifies_witness:
  "fst (Create r0 lib0 env0 w0 ''GIF89a'' None) \<noteq> None
   \<and> mime_String (mimetype_Detect lib0 ''GIF89a'') = ''image/gif''
   \<and> Format (the (fst (Create r0 lib0 env0 w0 ''GIF89a'' None))) = FormatAnimatedImage"
proof -
  have s: "mime_String (mimetype_Detect lib0 ''GIF89a'') = ''image/gif''"
    by (simp add: lib0_def)
  from Create_classifies [OF Create_gif] s show ?thesis
    by (simp add: Create_gif)
qed

subsection \<open>Get, Add and Remove on the map\<close>

lemma Add_repo:
  "fst (snd (Add r L E w m)) =
     (if Get r (ID m) \<noteq> None then r
      else r\<lparr>items := Some (AList.update (ID m) m (case items r of None \<Rightarrow> [] | Some al \<Rightarrow> al))\<rparr>)"
  by (cases "items r") (simp_all add: Add_def Get_def Let_def split: prod.splits)

lemma Remove_repo:
  "fst (snd (Remove r L E w i)) = r\<lparr>items := map_option (AList.delete i) (items r)\<rparr>"
  by (simp add: Remove_def Let_def split: prod.splits)

lemma Add_ok_not_duplicate: "fst (Add r L E w m) = None \<Longrightarrow> Get r (ID m) = None"
  by (cases "items r") (auto simp: Add_def Get_def Let_def split: if_splits)

lemma Get_Add_same: "Get r (ID m) = None \<Longrightarrow> Get (fst (snd (Add r L E w m))) (ID m) = Some m"
  by (simp add: Add_repo) (simp add: Get_def update_Some_unfold)

lemma Get_Add_keeps: "Get r k = Some m \<Longrightarrow> Get (fst (snd (Add r L E w m2))) k = Some m"
  by (cases "items r") (auto simp: Add_repo Get_def update_conv')

lemma Get_Remove_other: "k \<noteq> i \<Longrightarrow> Get (fst (snd (Remove r L E w i))) k = Get r k"
  by (cases "items r") (simp_all add: Remove_repo Get_def delete_conv')

lemma Get_Remove_same: "Get (fst (snd (Remove r L E w i))) i = None"
  by (cases "items r") (simp_all add: Remove_repo Get_def delete_conv')

text \<open>\<open>Create\<close> changes the repository through \<open>Add\<close> only.\<close>

lemma Create_repo:
  "fst (snd (snd (Create r L E w b md))) = r
   \<or> (\<exists>m0 w2. fst (Create r L E w b md) = Some m0 \<and> ID m0 = uuid_New E
        \<and> fst (snd (snd (Create r L E w b md))) = fst (snd (Add r L E w2 m0)))"
  by (auto simp: Create_def Let_def split: prod.splits sum.splits option.splits)

lemma Get_Create_keeps:
  "Get r k = Some m \<Longrightarrow> Get (fst (snd (snd (Create r L E w b md)))) k = Some m"
  using Create_repo [of r L E w b md] by (auto simp: Get_Add_keeps)

lemma Get_apply_op_keeps:
  assumes "Get (fst rw) k = Some m" and "\<not> removes k x"
  shows "Get (fst (apply_op L rw x)) k = Some m"
proof (cases rw)
  case (Pair r w)
  with assms show ?thesis
    by (cases x) (simp_all add: Get_Add_keeps Get_Remove_other Get_Create_keeps)
qed

lemma Get_run_ops_keeps:
  "Get (fst rw) k = Some m \<Longrightarrow> \<forall>x\<in>set ops. \<not> removes k x \<Longrightarrow>
     Get (fst (run_ops L rw ops)) k = Some m"
  unfolding run_ops_def
  by (induction ops arbitrary: rw) (simp_all add: Get_apply_op_keeps)

text \<open>
  Claim C6. After \<open>Add m\<close> has returned without error, \<open>Get\<close> of \<open>m\<close>'s identifier
  returns \<open>m\<close> after any further calls of \<open>Add\<close>, \<open>Remove\<close> and \<open>Create\<close>, whatever
  they return, as long as none of them is \<open>Remove\<close> of that identifier; and once
  \<open>Remove\<close> of that identifier has run, \<open>Get\<close> returns nothing for it.
\<close>

theorem Get_after_Add_until_Remove:
  assumes "Add r L E w m = (None, r1, w1)"
  shows "(\<forall>ops. (\<forall>x\<in>set ops. \<not> removes (ID m) x) \<longrightarrow>
             Get (fst (run_ops L (r1, w1) ops)) (ID m) = Some m)
       \<and> (\<forall>ops E' r2 w2. run_ops L (r1, w1) ops = (r2, w2) \<longrightarrow>
             Get (fst (snd (Remove r2 L E' w2 (ID m)))) (ID m) = None)"
proof -
  from assms have "fst (Add r L E w m) = None" by simp
  then have "Get r (ID m) = None" by (rule Add_ok_not_duplicate)
  then have "Get (fst (snd (Add r L E w m))) (ID m) = Some m" by (rule Get_Add_same)
  with assms have "Get (fst (r1, w1)) (ID m) = Some m" by simp
  then have "\<forall>ops. (\<forall>x\<in>set ops. \<not> removes (ID m) x) \<longrightarrow>
             Get (fst (run_ops L (r1, w1) ops)) (ID m) = Some m"
    using Get_run_ops_keeps by blast
  then show ?thesis using Get_Remove_same by blast
qed

lemma Add_mC:
  "Add r0 lib0 env0 w0 mC =
     (None, r0\<lparr>items := Some [(''u1'', mA), (''u2'', mB), (''u3'', mC)]\<rparr>,
      w0\<lparr>files := (files w0)(''/idx'' \<mapsto> ''u1 u1.png'' @ [CHR 0x0A] @ ''u2 u2.png'' @ [CHR 0x0A]
                      @ ''u3 u3.png'' @ [CHR 0x0A])\<rparr>)"
  by (simp add: Let_def lib0_def env0_def r0_def w0_def os_OpenFile_def
      File_Write_def put_bytes_def content_def pwrite_def Add_def mA_def mB_def mC_def
      saveSingle_def write'_def deferred_close_def File_Close_def)

theorem Get_after_Add_until_Remove_witness:
  "fst (Add r0 lib0 env0 w0 mC) = None
   \<and> list_all (\<lambda>x. \<not> removes (ID mC) x)
         [OpAdd env0 mC, OpRemove env0 ''u1'', OpCreate env0 ''GIF89a'' None]
   \<and> Get (fst (run_ops lib0 (snd (Add r0 lib0 env0 w0 mC))
             [OpAdd env0 mC, OpRemove env0 ''u1'', OpCreate env0 ''GIF89a'' None])) (ID mC) = Some mC
   \<and> (case run_ops lib0 (snd (Add r0 lib0 env0 w0 mC)) [OpRemove env0 ''u1''] of
        (r2, w2) \<Rightarrow> Get (fst (snd (Remove r2 lib0 env0 w2 (ID mC)))) (ID mC) = None)"
proof -
  have nr: "\<forall>x\<in>set [OpAdd env0 mC, OpRemove env0 ''u1'', OpCreate env0 ''GIF89a'' None].
              \<not> removes (ID mC) x"
    by (simp add: mC_def)
  from Get_after_Add_until_Remove [OF Add_mC] nr show ?thesis
    by (auto simp: Add_mC list_all_iff split: prod.splits)
qed

subsection \<open>A repository without a path\<close>

text \<open>
  Claim C8. On a repository whose root path and index path are both empty, \<open>Create\<close>
  fails with \<open>ErrUnsupported\<close>; \<open>Add\<close> inserts the entity (or reports a duplicate) and
  \<open>Remove\<close> deletes the identifier, both without error from the disk; \<open>Get\<close> sees the
  entity after \<open>Add\<close> and nothing after \<open>Remove\<close>. The results do not depend on the
  environment or on the disk, and the disk is returned as it was.
\<close>

theorem memory_only:
  assumes "path r = []" and "lockPath r = []"
  shows "Create r L E w b md = (None, Some ErrUnsupported, r, w)
       \<and> Add r L E w m =
           (if Get r (ID m) \<noteq> None
            then (Some (ErrDuplicateID (uuid_String (ID m)) (id' r)), r, w)
            else (None,
                  r\<lparr>items := Some (AList.update (ID m) m
                                     (case items r of None \<Rightarrow> [] | Some al \<Rightarrow> al))\<rparr>,
                  w))
       \<and> Get (fst (snd (Add r L E w m))) (ID m)
           = (if Get r (ID m) \<noteq> None then Get r (ID m) else Some m)
       \<and> Remove r L E w i = (None, r\<lparr>items := map_option (AList.delete i) (items r)\<rparr>, w)
       \<and> Get (fst (snd (Remove r L E w i))) i = None"
proof -
  have c: "Create r L E w b md = (None, Some ErrUnsupported, r, w)"
    using assms(1) by (simp add: Create_def)
  have a: "Add r L E w m =
           (if Get r (ID m) \<noteq> None
            then (Some (ErrDuplicateID (uuid_String (ID m)) (id' r)), r, w)
            else (None,
                  r\<lparr>items := Some (AList.update (ID m) m
                                     (case items r of None \<Rightarrow> [] | Some al \<Rightarrow> al))\<rparr>,
                  w))"
    using assms(2) by (cases "items r") (simp_all add: Add_def Get_def Let_def saveSingle_def)
  have g: "Get (fst (snd (Add r L E w m))) (ID m)
             = (if Get r (ID m) \<noteq> None then Get r (ID m) else Some m)"
    using Get_Add_same [of r m L E w] by (auto simp: Add_repo)
  have d: "Remove r L E w i = (None, r\<lparr>items := map_option (AList.delete i) (items r)\<rparr>, w)"
    using assms(2) by (simp add: Remove_def Let_def save_def)
  have h: "Get (fst (snd (Remove r L E w i))) i = None"
    by (rule Get_Remove_same)
  from c a g d h show ?thesis by blast
qed

theorem memory_only_witness:
  "path mem0 = [] \<and> lockPath mem0 = []
   \<and> Create mem0 lib0 env0 w0 ''GIF89a'' None = (None, Some ErrUnsupported, mem0, w0)
   \<and> Add mem0 lib0 env0 w0 mB = (None, mem0\<lparr>items := Some [(''u1'', mA), (''u2'', mB)]\<rparr>, w0)
   \<and> Get (fst (snd (Add mem0 lib0 env0 w0 mB))) ''u2'' = Some mB
   \<and> Add mem0 lib0 env0 w0 mA = (Some (ErrDuplicateID ''u1'' ''mem''), mem0, w0)
   \<and> Remove mem0 lib0 env0 w0 ''u1'' = (None, mem0\<lparr>items := Some []\<rparr>, w0)
   \<and> Get (fst (snd (Remove mem0 lib0 env0 w0 ''u1''))) ''u1'' = None"
proof -
  have p: "path mem0 = []" and l: "lockPath mem0 = []"
    by (simp_all add: mem0_def NewMemory_def)
  have gA: "Get mem0 (ID mA) = Some mA" and gB: "Get mem0 (ID mB) = None"
    by (simp_all add: mem0_def NewMemory_def Get_def mA_def mB_def)
  have i: "items mem0 = Some [(''u1'', mA)]" "ID mA = ''u1''" "ID mB = ''u2''" "id' mem0 = ''mem''"
    by (simp_all add: mem0_def NewMemory_def mA_def mB_def)
  from memory_only [OF p l, of lib0 env0 w0 "''GIF89a''" None mB "''u1''"]
    memory_only [OF p l, of lib0 env0 w0 "''GIF89a''" None mA "''u1''"] p l gA gB i
  show ?thesis by (simp add: uuid_String_def AList.delete_eq Get_def)
qed

subsection \<open>What Create returns when Add fails\<close>

text \<open>
  Claim C9. When the asset file has been opened and written, \<open>Create\<close> returns the
  entity it built (the generated identifier, the classified format, the destination path,
  the metadata) together with whatever \<open>Add\<close> returns; so when \<open>Add\<close> fails, the
  caller gets that entity and the error of \<open>Add\<close>.
\<close>

theorem Create_returns_entity:
  assumes "path r \<noteq> []"
    and "p = filepath_Join L (path r)
               (uuid_String (uuid_New E) @ mime_Extension (mimetype_Detect L b))"
    and "os_OpenFile E w p [O_WRONLY, O_CREATE] = (Inr f, w1)"
    and "File_Write E w1 f b = (None, f', w2)"
    and "m0 = \<lparr>ID = uuid_New E, Format = Create_format (mime_String (mimetype_Detect L b)),
               Path = p, Meta = md\<rparr>"
  shows "Create r L E w b md = (Some m0, Add r L E w2 m0)
       \<and> (fst (Add r L E w2 m0) \<noteq> None \<longrightarrow>
            fst (Create r L E w b md) = Some m0
            \<and> fst (snd (Create r L E w b md)) = fst (Add r L E w2 m0))"
proof -
  have "Create r L E w b md = (Some m0, Add r L E w2 m0)"
    using assms by (simp add: Create_def Let_def split: prod.splits)
  then show ?thesis by simp
qed

lemma Create_index_denied:
  "Create r0 lib0 env_index_denied w0 ''GIF89a'' None =
     (Some mG, Some (Wrap (ErrOS ''permission denied'') ''failed to open index file''),
      r0\<lparr>items := Some [(''u1'', mA), (''u2'', mB), (''u3'', mG)]\<rparr>,
      w0\<lparr>files := (files w0)(''/root/u3.gif'' \<mapsto> ''GIF89a'')\<rparr>)"
  by (simp add: Create_def Let_def lib0_def env0_def env_index_denied_def r0_def w0_def
      uuid_String_def os_OpenFile_def File_Write_def put_bytes_def content_def pwrite_def
      Create_format_def Add_def mA_def mB_def mG_def saveSingle_def write'_def
      deferred_close_def File_Close_def)

theorem Create_returns_entity_witness:
  "path r0 \<noteq> []
   \<and> fst (os_OpenFile env_index_denied w0 ''/root/u3.gif'' [O_WRONLY, O_CREATE])
       = Inr \<lparr>f_path = ''/root/u3.gif'', f_pos = 0, f_append = False, f_writes = 0\<rparr>
   \<and> fst (Create r0 lib0 env_index_denied w0 ''GIF89a'' None) = Some mG
   \<and> fst (snd (Create r0 lib0 env_index_denied w0 ''GIF89a'' None))
       = Some (Wrap (ErrOS ''permission denied'') ''failed to open index file'')"
proof -
  let ?f = "\<lparr>f_path = ''/root/u3.gif'', f_pos = 0, f_append = False, f_writes = 0\<rparr>"
  let ?w1 = "w0\<lparr>files := (files w0)(''/root/u3.gif'' \<mapsto> [])\<rparr>"
  let ?w2 = "w0\<lparr>files := (files w0)(''/root/u3.gif'' \<mapsto> ''GIF89a'')\<rparr>"
  have a: "path r0 \<noteq> []" by (simp add: r0_def)
  have b: "''/root/u3.gif'' = filepath_Join lib0 (path r0)
             (uuid_String (uuid_New env_index_denied)
                @ mime_Extension (mimetype_Detect lib0 ''GIF89a''))"
    by (simp add: lib0_def r0_def uuid_String_def env_index_denied_def env0_def)
  have c: "os_OpenFile env_index_denied w0 ''/root/u3.gif'' [O_WRONLY, O_CREATE] = (Inr ?f, ?w1)"
    by (simp add: os_OpenFile_def env_index_denied_def env0_def w0_def)
  have d: "File_Write env_index_denied ?w1 ?f ''GIF89a''
             = (None, ?f\<lparr>f_pos := 6, f_writes := 1\<rparr>, ?w2)"
    by (simp add: File_Write_def env_index_denied_def env0_def put_bytes_def content_def
        pwrite_def w0_def)
  have e: "mG = \<lparr>ID = uuid_New env_index_denied,
                  Format = Create_format (mime_String (mimetype_Detect lib0 ''GIF89a'')),
                  Path = ''/root/u3.gif'', Meta = None\<rparr>"
    by (simp add: mG_def env_index_denied_def env0_def Create_format_def lib0_def)
  have g: "fst (Add r0 lib0 env_index_denied ?w2 mG) \<noteq> None"
    by (simp add: Add_def r0_def mA_def mB_def mG_def saveSingle_def os_OpenFile_def
        env_index_denied_def env0_def Let_def)
  from Create_returns_entity [OF a b c d e] g a c show ?thesis
    by (simp add: Create_index_denied)
qed

subsection \<open>The nil map\<close>

lemma NewFile_no_index:
  assumes "(if filepath_IsAbs L p0 then Inr p0 else filepath_Abs L p0) = Inr root"
    and "os_MkdirAll E w root = (None, w1)"
    and "os_Stat E w1 lk \<noteq> None"
  shows "NewFile L E w i p0 lk =
           ((Some \<lparr>id' = i, path = root, lockPath = lk, items = None\<rparr>, None), w1)"
  using assms unfolding NewFile_def by (auto split: sum.splits)

lemma Add_nil: "items r = None \<Longrightarrow> items (fst (snd (Add r L E w m))) = Some [(ID m, m)]"
  by (simp add: Add_repo Get_def)

lemma Create_nil:
  assumes "items r = None"
  shows "items (fst (snd (snd (Create r L E w b md)))) = None
       \<or> (\<exists>m0. fst (Create r L E w b md) = Some m0
             \<and> items (fst (snd (snd (Create r L E w b md)))) = Some [(ID m0, m0)])"
  using Create_repo [of r L E w b md] assms by (auto simp: Add_nil)

text \<open>
  Claim C10. A repository that has never held an entity (built by \<open>NewMemory\<close>, or by
  \<open>NewFile\<close> when \<open>os.Stat\<close> finds no index) has the nil map, not an empty one. On the
  nil map every read is defined: \<open>Get\<close> finds nothing, \<open>Items\<close> and \<open>Random\<close> are
  empty. \<open>Remove\<close> leaves the map nil; \<open>Add\<close> allocates it, and \<open>Create\<close> does so
  only through \<open>Add\<close>.
\<close>

theorem nil_map_reads:
  "items (NewMemory i) = None
   \<and> ((if filepath_IsAbs L p0 then Inr p0 else filepath_Abs L p0) = Inr root
        \<and> os_MkdirAll E w root = (None, w1) \<and> os_Stat E w1 lk \<noteq> None \<longrightarrow>
      NewFile L E w j p0 lk
        = ((Some \<lparr>id' = j, path = root, lockPath = lk, items = None\<rparr>, None), w1))
   \<and> (items r = None \<longrightarrow>
        Get r k = None \<and> Items r E = [] \<and> Random r E n = []
        \<and> items (fst (snd (Remove r L E w k))) = None
        \<and> items (fst (snd (Add r L E w m))) = Some [(ID m, m)]
        \<and> (items (fst (snd (snd (Create r L E w b md)))) = None
            \<or> (\<exists>m0. fst (Create r L E w b md) = Some m0
                  \<and> items (fst (snd (snd (Create r L E w b md)))) = Some [(ID m0, m0)])))"
proof -
  have a: "items (NewMemory i) = None"
    by (simp add: NewMemory_def)
  have b: "(if filepath_IsAbs L p0 then Inr p0 else filepath_Abs L p0) = Inr root
        \<and> os_MkdirAll E w root = (None, w1) \<and> os_Stat E w1 lk \<noteq> None \<longrightarrow>
      NewFile L E w j p0 lk
        = ((Some \<lparr>id' = j, path = root, lockPath = lk, items = None\<rparr>, None), w1)"
    using NewFile_no_index by blast
  have c: "items r = None \<longrightarrow>
        Get r k = None \<and> Items r E = [] \<and> Random r E n = []
        \<and> items (fst (snd (Remove r L E w k))) = None
        \<and> items (fst (snd (Add r L E w m))) = Some [(ID m, m)]
        \<and> (items (fst (snd (snd (Create r L E w b md)))) = None
            \<or> (\<exists>m0. fst (Create r L E w b md) = Some m0
                  \<and> items (fst (snd (snd (Create r L E w b md)))) = Some [(ID m0, m0)]))"
  proof
    assume n: "items r = None"
    have "Items r E = []"
      using n by (simp add: Items_def maps_Values_def range_map_def)
    moreover from this have "Random r E n = []"
      by (simp add: Random_def rand_Shuffle_def)
    moreover have "Get r k = None" using n by (simp add: Get_def)
    moreover have "items (fst (snd (Remove r L E w k))) = None"
      using n by (simp add: Remove_repo)
    ultimately show "Get r k = None \<and> Items r E = [] \<and> Random r E n = []
        \<and> items (fst (snd (Remove r L E w k))) = None
        \<and> items (fst (snd (Add r L E w m))) = Some [(ID m, m)]
        \<and> (items (fst (snd (snd (Create r L E w b md)))) = None
            \<or> (\<exists>m0. fst (Create r L E w b md) = Some m0
                  \<and> items (fst (snd (snd (Create r L E w b md)))) = Some [(ID m0, m0)]))"
      using Add_nil [OF n] Create_nil [OF n] by blast
  qed
  from a b c show ?thesis by blast
qed

theorem nil_map_reads_witness:
  "filepath_IsAbs lib0 ''/root''
   \<and> os_MkdirAll env0 w_fresh ''/root'' = (None, w_fresh\<lparr>dirs := {''/root''}\<rparr>)
   \<and> os_Stat env0 (w_fresh\<lparr>dirs := {''/root''}\<rparr>) ''/idx'' = Some ErrNotExist
   \<and> NewFile lib0 env0 w_fresh ''repo'' ''/root'' ''/idx''
       = ((Some \<lparr>id' = ''repo'', path = ''/root'', lockPath = ''/idx'', items = None\<rparr>, None),
          w_fresh\<lparr>dirs := {''/root''}\<rparr>)
   \<and> items (NewMemory ''mem'') = None
   \<and> Get (NewMemory ''mem'') ''u1'' = None
   \<and> Items (NewMemory ''mem'') env0 = []
   \<and> Random (NewMemory ''mem'') env0 3 = []
   \<and> items (fst (snd (Remove (NewMemory ''mem'') lib0 env0 w_fresh ''u1''))) = None
   \<and> items (fst (snd (Add (NewMemory ''mem'') lib0 env0 w_fresh mA))) = Some [(''u1'', mA)]"
proof -
  have a: "(if filepath_IsAbs lib0 ''/root'' then Inr ''/root'' else filepath_Abs lib0 ''/root'')
             = Inr ''/root''" and a': "filepath_IsAbs lib0 ''/root''"
    by (simp_all add: lib0_def)
  have b: "os_MkdirAll env0 w_fresh ''/root'' = (None, w_fresh\<lparr>dirs := {''/root''}\<rparr>)"
    by (simp add: os_MkdirAll_def env0_def w_fresh_def)
  have c: "os_Stat env0 (w_fresh\<lparr>dirs := {''/root''}\<rparr>) ''/idx'' = Some ErrNotExist"
    by (simp add: os_Stat_def env0_def w_fresh_def)
  have n: "items (NewMemory ''mem'') = None" by (simp add: NewMemory_def)
  have i: "ID mA = ''u1''" by (simp add: mA_def)
  from nil_map_reads [where i = "''mem''" and L = lib0 and ?p0.0 = "''/root''" and root = "''/root''"
      and E = env0 and w = w_fresh and ?w1.0 = "w_fresh\<lparr>dirs := {''/root''}\<rparr>" and lk = "''/idx''"
      and j = "''repo''" and r = "NewMemory ''mem''" and k = "''u1''" and n = 3 and m = mA]
    a a' b c n i
  show ?thesis
    by simp
qed

subsection \<open>The asset file of Create\<close>

lemma pwrite_0: "pwrite c 0 b = b @ drop (length b) c"
  by (simp add: pwrite_def)

text \<open>
  Claim C5, as amended. \<open>Create\<close> opens \<open>root/<id><extension>\<close> write-only, creating
  it when it is absent and opening it in place when it exists (no exclusive creation, no
  truncation), and writes the payload from offset 0. A failure to open, or a failure to
  write, is returned wrapped, with no entity and without calling \<open>Add\<close>; the bytes that
  reached the file stay there. After a successful write the entity is handed to \<open>Add\<close>
  on the disk holding the written file. What a failing close does is left open here.
\<close>

theorem Create_asset_write:
  assumes "path r \<noteq> []"
    and "p = filepath_Join L (path r)
               (uuid_String (uuid_New E) @ mime_Extension (mimetype_Detect L b))"
  shows "(\<forall>e. open_fault E p = Some e \<longrightarrow>
            Create r L E w b md = (None, Some (Wrap e ''failed to open file''), r, w))
       \<and> (\<forall>n e. open_fault E p = None \<and> write_fault E p 0 = Some (n, e) \<longrightarrow>
            Create r L E w b md =
              (None, Some (Wrap e ''failed to write file''), r,
               w\<lparr>files := (files w)(p \<mapsto> take n b @ drop (length (take n b)) (content w p))\<rparr>))
       \<and> (open_fault E p = None \<and> write_fault E p 0 = None \<longrightarrow>
            (\<exists>m0. Create r L E w b md =
               (Some m0,
                Add r L E (w\<lparr>files := (files w)(p \<mapsto> b @ drop (length b) (content w p))\<rparr>) m0)))"
proof -
  have a: "\<forall>e. open_fault E p = Some e \<longrightarrow>
            Create r L E w b md = (None, Some (Wrap e ''failed to open file''), r, w)"
    using assms by (simp add: Create_def Let_def os_OpenFile_def)
  have b: "\<forall>n e. open_fault E p = None \<and> write_fault E p 0 = Some (n, e) \<longrightarrow>
            Create r L E w b md =
              (None, Some (Wrap e ''failed to write file''), r,
               w\<lparr>files := (files w)(p \<mapsto> take n b @ drop (length (take n b)) (content w p))\<rparr>)"
    using assms
    by (cases "files w p")
      (simp_all add: Create_def Let_def os_OpenFile_def File_Write_def put_bytes_def content_def
        pwrite_0 del: length_take)
  have c: "open_fault E p = None \<and> write_fault E p 0 = None \<longrightarrow>
            (\<exists>m0. Create r L E w b md =
               (Some m0,
                Add r L E (w\<lparr>files := (files w)(p \<mapsto> b @ drop (length b) (content w p))\<rparr>) m0))"
    using assms
    by (cases "files w p")
      (simp_all add: Create_def Let_def os_OpenFile_def File_Write_def put_bytes_def content_def
        pwrite_0 split: prod.splits)
  from a b c show ?thesis by blast
qed

text \<open>
  The claim as the specification words it fails twice. The destination is not opened
  exclusively: a file already at the destination is overwritten in place and \<open>Create\<close>
  reports no error. And a failing close after a successful write is not reported: the
  deferred function assigns to the local \<open>err\<close>, which \<open>return m0, err\<close> has already
  read (in \<open>save\<close> and \<open>saveSingle\<close>, where \<open>err\<close> is the named result, it is).
\<close>

lemma Create_close_fails:
  "Create r0 lib0 env_close_fails w0 ''GIF89a'' None =
     (Some mG, None,
      r0\<lparr>items := Some [(''u1'', mA), (''u2'', mB), (''u3'', mG)]\<rparr>,
      w0\<lparr>files := (files w0)(''/root/u3.gif'' \<mapsto> ''GIF89a'',
         ''/idx'' \<mapsto> ''u1 u1.png'' @ [CHR 0x0A] @ ''u2 u2.png'' @ [CHR 0x0A]
                      @ ''u3 u3.gif'' @ [CHR 0x0A])\<rparr>)"
  by (simp add: Create_def Let_def lib0_def env0_def env_close_fails_def r0_def w0_def
      uuid_String_def os_OpenFile_def File_Write_def put_bytes_def content_def pwrite_def
      Create_format_def Add_def mA_def mB_def mG_def saveSingle_def write'_def
      deferred_close_def File_Close_def)

lemma Create_taken:
  "fst (snd (Create r0 lib0 env0 w_taken ''GIF89a'' None)) = None
   \<and> files (snd (snd (snd (Create r0 lib0 env0 w_taken ''GIF89a'' None)))) ''/root/u3.gif''
       = Some ''GIF89aer file''"
  by (simp add: Create_def Let_def lib0_def env0_def r0_def w0_def w_taken_def
      uuid_String_def os_OpenFile_def File_Write_def put_bytes_def content_def pwrite_def
      Create_format_def Add_def mA_def mB_def mG_def saveSingle_def write'_def
      deferred_close_def File_Close_def)

theorem Create_asset_write_counterexample:
  "files w_taken ''/root/u3.gif'' = Some ''an older file''
   \<and> fst (snd (Create r0 lib0 env0 w_taken ''GIF89a'' None)) = None
   \<and> files (snd (snd (snd (Create r0 lib0 env0 w_taken ''GIF89a'' None)))) ''/root/u3.gif''
       = Some ''GIF89aer file''
   \<and> File_Close env_close_fails
        \<lparr>f_path = ''/root/u3.gif'', f_pos = 6, f_append = False, f_writes = 1\<rparr>
       = Some (ErrOS ''close failed'')
   \<and> fst (snd (Create r0 lib0 env_close_fails w0 ''GIF89a'' None)) = None"
proof -
  have a: "files w_taken ''/root/u3.gif'' = Some ''an older file''"
    by (simp add: w_taken_def)
  have b: "File_Close env_close_fails
        \<lparr>f_path = ''/root/u3.gif'', f_pos = 6, f_append = False, f_writes = 1\<rparr>
       = Some (ErrOS ''close failed'')"
    by (simp add: File_Close_def env_close_fails_def)
  have c: "fst (snd (Create r0 lib0 env_close_fails w0 ''GIF89a'' None)) = None"
    by (simp add: Create_close_fails)
  from a b c Create_taken show ?thesis by blast
qed

theorem Create_asset_write_witness:
  "path r0 \<noteq> []
   \<and> open_fault env_asset_denied ''/root/u3.gif'' = Some (ErrOS ''permission denied'')
   \<and> Create r0 lib0 env_asset_denied w0 ''GIF89a'' None
       = (None, Some (Wrap (ErrOS ''permission denied'') ''failed to open file''), r0, w0)
   \<and> open_fault env_disk_full ''/root/u3.gif'' = None
   \<and> write_fault env_disk_full ''/root/u3.gif'' 0 = Some (3, ErrOS ''no space left'')
   \<and> Create r0 lib0 env_disk_full w0 ''GIF89a'' None
       = (None, Some (Wrap (ErrOS ''no space left'') ''failed to write file''), r0,
          w0\<lparr>files := (files w0)(''/root/u3.gif'' \<mapsto> ''GIF'')\<rparr>)
   \<and> open_fault env0 ''/root/u3.gif'' = None \<and> write_fault env0 ''/root/u3.gif'' 0 = None
   \<and> fst (Create r0 lib0 env0 w_taken ''GIF89a'' None) = Some mG"
proof -
  have a: "path r0 \<noteq> []" by (simp add: r0_def)
  have p1: "''/root/u3.gif'' = filepath_Join lib0 (path r0)
             (uuid_String (uuid_New env_asset_denied)
                @ mime_Extension (mimetype_Detect lib0 ''GIF89a''))"
    and p2: "''/root/u3.gif'' = filepath_Join lib0 (path r0)
             (uuid_String (uuid_New env_disk_full)
                @ mime_Extension (mimetype_Detect lib0 ''GIF89a''))"
    and p3: "''/root/u3.gif'' = filepath_Join lib0 (path r0)
             (uuid_String (uuid_New env0)
                @ mime_Extension (mimetype_Detect lib0 ''GIF89a''))"
    by (simp_all add: lib0_def r0_def uuid_String_def env_asset_denied_def env_disk_full_def env0_def)
  have f: "open_fault env_asset_denied ''/root/u3.gif'' = Some (ErrOS ''permission denied'')"
    "open_fault env_disk_full ''/root/u3.gif'' = None"
    "write_fault env_disk_full ''/root/u3.gif'' 0 = Some (3, ErrOS ''no space left'')"
    "open_fault env0 ''/root/u3.gif'' = None" "write_fault env0 ''/root/u3.gif'' 0 = None"
    by (simp_all add: env_asset_denied_def env_disk_full_def env0_def)
  have c: "content w0 ''/root/u3.gif'' = []"
    by (simp add: content_def w0_def)
  have g: "fst (Create r0 lib0 env0 w_taken ''GIF89a'' None) = Some mG"
    by (simp add: Create_def Let_def lib0_def env0_def r0_def w0_def w_taken_def
      uuid_String_def os_OpenFile_def File_Write_def put_bytes_def content_def pwrite_def
      Create_format_def Add_def mA_def mB_def mG_def saveSingle_def write'_def
      deferred_close_def File_Close_def)
  from Create_asset_write [OF a p1, of w0 None] Create_asset_write [OF a p2, of w0 None]
    Create_asset_write [OF a p3, of w_taken None] a f c g
  show ?thesis by simp
qed

subsection \<open>Reloading the index\<close>

lemma load_loop_skips_blank:
  "load_loop L E w root al (filter (\<lambda>l. l \<noteq> []) ls) = load_loop L E w root al ls"
  by (induction ls arbitrary: al) (auto simp: Let_def split: sum.splits)

lemma load_loop_decode_error:
  "list_all (\<lambda>l. l \<noteq> []) ls \<Longrightarrow> decode_all L ls = Inl e \<Longrightarrow>
     load_loop L E w root al ls = Inl (Wrap e ''failed to read index file item'')"
  by (induction ls arbitrary: al) (auto simp: Let_def split: sum.splits)

lemma ID_resolve: "ID (resolve L root m) = ID m"
  by (simp add: resolve_def)

lemma load_loop_spec:
  assumes "list_all (\<lambda>l. l \<noteq> []) ls" and "decode_all L ls = Inr ms"
    and "distinct (map fst al)" and "list_all (\<lambda>km. ID (snd km) = fst km) al"
  shows "\<exists>al'. load_loop L E w root al ls = Inr al'
           \<and> distinct (map fst al') \<and> list_all (\<lambda>km. ID (snd km) = fst km) al'
           \<and> (\<forall>k. map_of al' k =
                 (case map_of al k of Some x \<Rightarrow> Some x | None \<Rightarrow> stat_reload L E w root ms k))"
  using assms
proof (induction ls arbitrary: al ms)
  case Nil
  then show ?case by (auto simp: stat_reload_def split: option.splits)
next
  case (Cons l ls)
  from Cons.prems(1) have l: "l \<noteq> []" and ls: "list_all (\<lambda>l. l \<noteq> []) ls" by simp_all
  from Cons.prems(2) obtain m ms' where
    m: "json_Unmarshal L l = Inr m" and ms': "decode_all L ls = Inr ms'" and ms: "ms = m # ms'"
    by (auto split: sum.splits)
  let ?abs = "if filepath_IsAbs L (Path m) then Path m else filepath_Join L root (Path m)"
  have res: "resolve L root m = \<lparr>ID = ID m, Format = Format m, Path = ?abs, Meta = Meta m\<rparr>"
    by (simp add: resolve_def)
  have disk: "(os_Stat E w (Path (resolve L root m)) \<noteq> Some ErrNotExist)
                = (os_Stat E w ?abs \<noteq> Some ErrNotExist)"
    by (simp add: resolve_def)
  show ?case
  proof (cases "map_of al (ID m) \<noteq> None \<or> os_Stat E w ?abs = Some ErrNotExist")
    case True
    then have step: "load_loop L E w root al (l # ls) = load_loop L E w root al ls"
      using l m by (auto simp: Let_def)
    from Cons.IH [OF ls ms' Cons.prems(3) Cons.prems(4)] obtain al' where
      al': "load_loop L E w root al ls = Inr al'" "distinct (map fst al')"
        "list_all (\<lambda>km. ID (snd km) = fst km) al'"
        "\<forall>k. map_of al' k =
           (case map_of al k of Some x \<Rightarrow> Some x | None \<Rightarrow> stat_reload L E w root ms' k)"
      by blast
    have "\<forall>k. map_of al k = None \<longrightarrow> stat_reload L E w root ms k = stat_reload L E w root ms' k"
      using True disk by (auto simp: stat_reload_def ms ID_resolve)
    then have "\<forall>k. map_of al' k =
           (case map_of al k of Some x \<Rightarrow> Some x | None \<Rightarrow> stat_reload L E w root ms k)"
      using al'(4) by (auto split: option.splits)
    with al' step show ?thesis by auto
  next
    case False
    let ?al2 = "AList.update (ID m) (resolve L root m) al"
    from False have step: "load_loop L E w root al (l # ls) = load_loop L E w root ?al2 ls"
      using l m by (simp add: Let_def res)
    have d2: "distinct (map fst ?al2)"
      using Cons.prems(3) by (simp add: distinct_update)
    have fresh: "map_of al (ID m) = None" using False by simp
    then have "ID m \<notin> fst ` set al"
      by (simp add: map_of_eq_None_iff)
    then have upd: "?al2 = al @ [(ID m, resolve L root m)]"
      by (induction al) auto
    have i2: "list_all (\<lambda>km. ID (snd km) = fst km) ?al2"
      using Cons.prems(4) by (simp add: upd ID_resolve)
    from Cons.IH [OF ls ms' d2 i2] obtain al' where
      al': "load_loop L E w root ?al2 ls = Inr al'" "distinct (map fst al')"
        "list_all (\<lambda>km. ID (snd km) = fst km) al'"
        "\<forall>k. map_of al' k =
           (case map_of ?al2 k of Some x \<Rightarrow> Some x | None \<Rightarrow> stat_reload L E w root ms' k)"
      by blast
    have "\<forall>k. (case map_of ?al2 k of Some x \<Rightarrow> Some x | None \<Rightarrow> stat_reload L E w root ms' k)
             = (case map_of al k of Some x \<Rightarrow> Some x | None \<Rightarrow> stat_reload L E w root ms k)"
      using False fresh disk
      by (auto simp: update_conv' stat_reload_def ms ID_resolve split: option.splits)
    with al' step show ?thesis by auto
  qed
qed


lemma NewFile_index:
  assumes "(if filepath_IsAbs L p0 then Inr p0 else filepath_Abs L p0) = Inr root"
    and "os_MkdirAll E w root = (None, w1)"
    and "os_Stat E w1 lk = None" and "os_Open E w1 lk = None" and "scan E w1 lk = (ls, serr)"
  shows "NewFile L E w i p0 lk =
     (case load_loop L E w1 root [] ls of
        Inl err \<Rightarrow> ((None, Some err), w1)
      | Inr al \<Rightarrow>
          (case serr of
             Some err \<Rightarrow> ((None, Some (Wrap err ''failed to read index file'')), w1)
           | None \<Rightarrow> ((Some \<lparr>id' = i, path = root, lockPath = lk, items = Some al\<rparr>, None), w1)))"
  using assms unfolding NewFile_def by (auto split: sum.splits)

lemma stat_reload_abs:
  assumes "filepath_IsAbs L root"
    and "\<forall>a b. filepath_IsAbs L a \<longrightarrow> filepath_IsAbs L (filepath_Join L a b)"
    and "stat_reload L E w root ms k = Some m'"
  shows "filepath_IsAbs L (Path m')"
proof -
  from assms(3) have "m' \<in> set (map (resolve L root) ms)"
    unfolding stat_reload_def by (auto simp: find_Some_iff)
  then obtain m where "m' = resolve L root m" by auto
  with assms(1,2) show ?thesis by (simp add: resolve_def)
qed

lemma os_Stat_on_disk:
  "stat_fault E p = None \<Longrightarrow> (os_Stat E w p \<noteq> Some ErrNotExist) = on_disk w p"
  by (simp add: os_Stat_def on_disk_def)

lemma stat_reload_spec:
  assumes "\<forall>p. stat_fault E p = None"
  shows "stat_reload L E w root ms k = spec_reload L w root ms k"
  using assms by (simp add: stat_reload_def spec_reload_def os_Stat_on_disk)

text \<open>
  Claim C4, as amended. Let the root resolve and its directory be made. When \<open>os.Stat\<close>
  finds no index, \<open>NewFile\<close> succeeds with the nil map. When the index opens and the
  scanner delivers the lines \<open>ls\<close>: empty lines, and only those, are passed over; if
  another line fails to decode, \<open>NewFile\<close> returns no repository and the wrapped
  decoding error of the first such line; if all decode and the scanner reports no error,
  \<open>NewFile\<close> succeeds with a map of distinct keys in which every identifier maps to the
  first record of that identifier for whose path, joined to the root unless already
  absolute, \<open>os.Stat\<close> does not return \<open>ErrNotExist\<close>, stored with that path, and to
  nothing when there is no such record. Where \<open>os.Stat\<close> fails for no other reason,
  these are the records whose path exists on disk. The stored path is absolute as soon as
  the root is and joining to an absolute path keeps it absolute; nothing is said of its
  being cleaned.
\<close>

theorem NewFile_reload:
  assumes "(if filepath_IsAbs L p0 then Inr p0 else filepath_Abs L p0) = Inr root"
    and "os_MkdirAll E w root = (None, w1)"
  shows "(os_Stat E w1 lk \<noteq> None \<longrightarrow>
            NewFile L E w i p0 lk
              = ((Some \<lparr>id' = i, path = root, lockPath = lk, items = None\<rparr>, None), w1))
       \<and> (os_Stat E w1 lk = None \<and> os_Open E w1 lk = None \<and> scan E w1 lk = (ls, serr) \<longrightarrow>
            (\<forall>e. decode_all L (filter (\<lambda>l. l \<noteq> []) ls) = Inl e \<longrightarrow>
               NewFile L E w i p0 lk
                 = ((None, Some (Wrap e ''failed to read index file item'')), w1))
          \<and> (\<forall>ms. decode_all L (filter (\<lambda>l. l \<noteq> []) ls) = Inr ms \<and> serr = None \<longrightarrow>
               (\<exists>al. NewFile L E w i p0 lk
                        = ((Some \<lparr>id' = i, path = root, lockPath = lk, items = Some al\<rparr>, None), w1)
                   \<and> distinct (map fst al)
                   \<and> (\<forall>k. map_of al k = stat_reload L E w1 root ms k)
                   \<and> ((\<forall>p. stat_fault E p = None) \<longrightarrow>
                        (\<forall>k. map_of al k = spec_reload L w1 root ms k))
                   \<and> (filepath_IsAbs L root
                        \<and> (\<forall>a b. filepath_IsAbs L a \<longrightarrow> filepath_IsAbs L (filepath_Join L a b)) \<longrightarrow>
                      (\<forall>k m'. map_of al k = Some m' \<longrightarrow> filepath_IsAbs L (Path m'))))))"
proof -
  let ?ls = "filter (\<lambda>l. l \<noteq> []) ls"
  have nb: "list_all (\<lambda>l. l \<noteq> []) ?ls" by (simp add: list_all_iff)
  have a: "os_Stat E w1 lk \<noteq> None \<longrightarrow>
            NewFile L E w i p0 lk
              = ((Some \<lparr>id' = i, path = root, lockPath = lk, items = None\<rparr>, None), w1)"
    using NewFile_no_index [OF assms] by blast
  have b: "os_Stat E w1 lk = None \<and> os_Open E w1 lk = None \<and> scan E w1 lk = (ls, serr) \<longrightarrow>
            (\<forall>e. decode_all L ?ls = Inl e \<longrightarrow>
               NewFile L E w i p0 lk
                 = ((None, Some (Wrap e ''failed to read index file item'')), w1))"
  proof (intro impI allI)
    fix e
    assume h: "os_Stat E w1 lk = None \<and> os_Open E w1 lk = None \<and> scan E w1 lk = (ls, serr)"
      and d: "decode_all L ?ls = Inl e"
    have "load_loop L E w1 root [] ls = Inl (Wrap e ''failed to read index file item'')"
      using load_loop_decode_error [OF nb d] load_loop_skips_blank by metis
    then show "NewFile L E w i p0 lk
                 = ((None, Some (Wrap e ''failed to read index file item'')), w1)"
      using NewFile_index [OF assms, of lk ls serr i] h by simp
  qed
  have c: "os_Stat E w1 lk = None \<and> os_Open E w1 lk = None \<and> scan E w1 lk = (ls, serr) \<longrightarrow>
          (\<forall>ms. decode_all L ?ls = Inr ms \<and> serr = None \<longrightarrow>
               (\<exists>al. NewFile L E w i p0 lk
                        = ((Some \<lparr>id' = i, path = root, lockPath = lk, items = Some al\<rparr>, None), w1)
                   \<and> distinct (map fst al)
                   \<and> (\<forall>k. map_of al k = stat_reload L E w1 root ms k)
                   \<and> ((\<forall>p. stat_fault E p = None) \<longrightarrow>
                        (\<forall>k. map_of al k = spec_reload L w1 root ms k))
                   \<and> (filepath_IsAbs L root
                        \<and> (\<forall>a b. filepath_IsAbs L a \<longrightarrow> filepath_IsAbs L (filepath_Join L a b)) \<longrightarrow>
                      (\<forall>k m'. map_of al k = Some m' \<longrightarrow> filepath_IsAbs L (Path m')))))"
  proof (intro impI allI)
    fix ms
    assume h: "os_Stat E w1 lk = None \<and> os_Open E w1 lk = None \<and> scan E w1 lk = (ls, serr)"
      and d: "decode_all L ?ls = Inr ms \<and> serr = None"
    from d have d1: "decode_all L ?ls = Inr ms" and s: "serr = None" by simp_all
    have "\<exists>al'. load_loop L E w1 root [] ?ls = Inr al'
           \<and> distinct (map fst al') \<and> list_all (\<lambda>km. ID (snd km) = fst km) al'
           \<and> (\<forall>k. map_of al' k =
                 (case map_of [] k of Some x \<Rightarrow> Some x | None \<Rightarrow> stat_reload L E w1 root ms k))"
      by (rule load_loop_spec [OF nb d1]) simp_all
    then obtain al where
      al: "load_loop L E w1 root [] ls = Inr al" "distinct (map fst al)"
        "\<forall>k. map_of al k = stat_reload L E w1 root ms k"
      by (auto simp: load_loop_skips_blank)
    have n: "NewFile L E w i p0 lk
               = ((Some \<lparr>id' = i, path = root, lockPath = lk, items = Some al\<rparr>, None), w1)"
      using NewFile_index [OF assms, of lk ls serr i] h al(1) s by simp
    have ab: "filepath_IsAbs L root
                \<and> (\<forall>a b. filepath_IsAbs L a \<longrightarrow> filepath_IsAbs L (filepath_Join L a b)) \<longrightarrow>
              (\<forall>k m'. map_of al k = Some m' \<longrightarrow> filepath_IsAbs L (Path m'))"
      using al(3) stat_reload_abs by metis
    have ag: "(\<forall>p. stat_fault E p = None) \<longrightarrow> (\<forall>k. map_of al k = spec_reload L w1 root ms k)"
      using al(3) by (simp add: stat_reload_spec)
    from n al(2,3) ab ag
    show "\<exists>al. NewFile L E w i p0 lk
                        = ((Some \<lparr>id' = i, path = root, lockPath = lk, items = Some al\<rparr>, None), w1)
                   \<and> distinct (map fst al)
                   \<and> (\<forall>k. map_of al k = stat_reload L E w1 root ms k)
                   \<and> ((\<forall>p. stat_fault E p = None) \<longrightarrow>
                        (\<forall>k. map_of al k = spec_reload L w1 root ms k))
                   \<and> (filepath_IsAbs L root
                        \<and> (\<forall>a b. filepath_IsAbs L a \<longrightarrow> filepath_IsAbs L (filepath_Join L a b)) \<longrightarrow>
                      (\<forall>k m'. map_of al k = Some m' \<longrightarrow> filepath_IsAbs L (Path m')))"
      by blast
  qed
  from a b c show ?thesis by blast
qed

lemma scan_index:
  "scan env0 w_index ''/idx''
     = ([''u1 u1.png'', [], ''u1 other.png'', ''u9 gone.png'', ''u2 /root/u2.png''], None)"
  by (simp add: scan_def env0_def w_index_def dropCR_def)

lemma scan_corrupt:
  "scan env0 w_corrupt ''/idx'' = ([''u1 u1.png'', ''garbage''], None)"
  by (simp add: scan_def env0_def w_corrupt_def dropCR_def)

lemma load_index_eval:
  "load_loop lib0 env0 w_index ''/root'' []
     [''u1 u1.png'', [], ''u1 other.png'', ''u9 gone.png'', ''u2 /root/u2.png'']
     = Inr [(''u1'', mA), (''u2'', mB)]"
  by (simp add: lib0_def os_Stat_def env0_def w_index_def mA_def mB_def)

lemma load_corrupt_eval:
  "load_loop lib0 env0 w_corrupt ''/root'' [] [''u1 u1.png'', ''garbage'']
     = Inl (Wrap (ErrOS ''json'') ''failed to read index file item'')"
  by (simp add: lib0_def os_Stat_def env0_def w_corrupt_def)

lemma NewFile_index_eval:
  "NewFile lib0 env0 w_index ''repo'' ''/root'' ''/idx'' = ((Some r0, None), w_index)"
proof -
  have a: "(if filepath_IsAbs lib0 ''/root'' then Inr ''/root'' else filepath_Abs lib0 ''/root'')
             = Inr ''/root''"
    by (simp add: lib0_def)
  have m: "os_MkdirAll env0 w_index ''/root'' = (None, w_index)"
    by (simp add: os_MkdirAll_def env0_def w_index_def)
  have s: "os_Stat env0 w_index ''/idx'' = None" and o: "os_Open env0 w_index ''/idx'' = None"
    by (simp_all add: os_Stat_def os_Open_def env0_def w_index_def)
  show ?thesis
    using NewFile_index [OF a m s o scan_index, of "''repo''", unfolded load_index_eval]
    by (simp add: r0_def)
qed

lemma NewFile_corrupt_eval:
  "NewFile lib0 env0 w_corrupt ''repo'' ''/root'' ''/idx''
     = ((None, Some (Wrap (ErrOS ''json'') ''failed to read index file item'')), w_corrupt)"
proof -
  have a: "(if filepath_IsAbs lib0 ''/root'' then Inr ''/root'' else filepath_Abs lib0 ''/root'')
             = Inr ''/root''"
    by (simp add: lib0_def)
  have m: "os_MkdirAll env0 w_corrupt ''/root'' = (None, w_corrupt)"
    by (simp add: os_MkdirAll_def env0_def w_corrupt_def)
  have s: "os_Stat env0 w_corrupt ''/idx'' = None" and o: "os_Open env0 w_corrupt ''/idx'' = None"
    by (simp_all add: os_Stat_def os_Open_def env0_def w_corrupt_def)
  show ?thesis
    using NewFile_index [OF a m s o scan_corrupt, of "''repo''", unfolded load_corrupt_eval]
    by simp
qed

theorem NewFile_reload_witness:
  "filepath_IsAbs lib0 ''/root''
   \<and> os_MkdirAll env0 w_fresh ''/root'' = (None, w_fresh\<lparr>dirs := {''/root''}\<rparr>)
   \<and> os_Stat env0 (w_fresh\<lparr>dirs := {''/root''}\<rparr>) ''/idx'' = Some ErrNotExist
   \<and> NewFile lib0 env0 w_fresh ''repo'' ''/root'' ''/idx''
       = ((Some \<lparr>id' = ''repo'', path = ''/root'', lockPath = ''/idx'', items = None\<rparr>, None),
          w_fresh\<lparr>dirs := {''/root''}\<rparr>)
   \<and> os_MkdirAll env0 w_index ''/root'' = (None, w_index)
   \<and> os_Stat env0 w_index ''/idx'' = None \<and> os_Open env0 w_index ''/idx'' = None
   \<and> scan env0 w_index ''/idx''
       = ([''u1 u1.png'', [], ''u1 other.png'', ''u9 gone.png'', ''u2 /root/u2.png''], None)
   \<and> decode_all lib0 [''u1 u1.png'', ''u1 other.png'', ''u9 gone.png'', ''u2 /root/u2.png'']
       = Inr [mA\<lparr>Path := ''u1.png''\<rparr>, mA\<lparr>Path := ''other.png''\<rparr>,
              \<lparr>ID = ''u9'', Format = FormatUnknown, Path = ''gone.png'', Meta = None\<rparr>, mB]
   \<and> NewFile lib0 env0 w_index ''repo'' ''/root'' ''/idx'' = ((Some r0, None), w_index)
   \<and> (\<forall>p. stat_fault env0 p = None)
   \<and> spec_reload lib0 w_index ''/root''
        [mA\<lparr>Path := ''u1.png''\<rparr>, mA\<lparr>Path := ''other.png''\<rparr>,
         \<lparr>ID = ''u9'', Format = FormatUnknown, Path = ''gone.png'', Meta = None\<rparr>, mB] ''u1''
       = Some mA
   \<and> spec_reload lib0 w_index ''/root''
        [mA\<lparr>Path := ''u1.png''\<rparr>, mA\<lparr>Path := ''other.png''\<rparr>,
         \<lparr>ID = ''u9'', Format = FormatUnknown, Path = ''gone.png'', Meta = None\<rparr>, mB] ''u9''
       = None
   \<and> os_MkdirAll env0 w_corrupt ''/root'' = (None, w_corrupt)
   \<and> os_Stat env0 w_corrupt ''/idx'' = None \<and> os_Open env0 w_corrupt ''/idx'' = None
   \<and> scan env0 w_corrupt ''/idx'' = ([''u1 u1.png'', ''garbage''], None)
   \<and> decode_all lib0 [''u1 u1.png'', ''garbage''] = Inl (ErrOS ''json'')
   \<and> NewFile lib0 env0 w_corrupt ''repo'' ''/root'' ''/idx''
       = ((None, Some (Wrap (ErrOS ''json'') ''failed to read index file item'')), w_corrupt)"
proof -
  have a: "(if filepath_IsAbs lib0 ''/root'' then Inr ''/root'' else filepath_Abs lib0 ''/root'')
             = Inr ''/root''" and a': "filepath_IsAbs lib0 ''/root''"
    by (simp_all add: lib0_def)
  have m1: "os_MkdirAll env0 w_fresh ''/root'' = (None, w_fresh\<lparr>dirs := {''/root''}\<rparr>)"
    and m2: "os_MkdirAll env0 w_index ''/root'' = (None, w_index)"
    and m3: "os_MkdirAll env0 w_corrupt ''/root'' = (None, w_corrupt)"
    by (simp_all add: os_MkdirAll_def env0_def w_fresh_def w_index_def w_corrupt_def)
  have s1: "os_Stat env0 (w_fresh\<lparr>dirs := {''/root''}\<rparr>) ''/idx'' = Some ErrNotExist"
    and s2: "os_Stat env0 w_index ''/idx'' = None" "os_Open env0 w_index ''/idx'' = None"
    and s3: "os_Stat env0 w_corrupt ''/idx'' = None" "os_Open env0 w_corrupt ''/idx'' = None"
    by (simp_all add: os_Stat_def os_Open_def env0_def w_fresh_def w_index_def w_corrupt_def)
  have d2: "decode_all lib0 [''u1 u1.png'', ''u1 other.png'', ''u9 gone.png'', ''u2 /root/u2.png'']
       = Inr [mA\<lparr>Path := ''u1.png''\<rparr>, mA\<lparr>Path := ''other.png''\<rparr>,
              \<lparr>ID = ''u9'', Format = FormatUnknown, Path = ''gone.png'', Meta = None\<rparr>, mB]"
    and d3: "decode_all lib0 [''u1 u1.png'', ''garbage''] = Inl (ErrOS ''json'')"
    by (simp_all add: lib0_def mA_def mB_def)
  have nf: "\<forall>p. stat_fault env0 p = None"
    by (simp add: env0_def)
  have sp: "spec_reload lib0 w_index ''/root''
        [mA\<lparr>Path := ''u1.png''\<rparr>, mA\<lparr>Path := ''other.png''\<rparr>,
         \<lparr>ID = ''u9'', Format = FormatUnknown, Path = ''gone.png'', Meta = None\<rparr>, mB] ''u1''
       = Some mA"
    "spec_reload lib0 w_index ''/root''
        [mA\<lparr>Path := ''u1.png''\<rparr>, mA\<lparr>Path := ''other.png''\<rparr>,
         \<lparr>ID = ''u9'', Format = FormatUnknown, Path = ''gone.png'', Meta = None\<rparr>, mB] ''u9''
       = None"
    by (simp_all add: spec_reload_def resolve_def on_disk_def lib0_def w_index_def mA_def mB_def)
  from NewFile_reload [OF a m1, where lk = "''/idx''" and i = "''repo''"]
    NewFile_reload [OF a m2, where lk = "''/idx''" and i = "''repo''" and serr = None
      and ls = "[''u1 u1.png'', [], ''u1 other.png'', ''u9 gone.png'', ''u2 /root/u2.png'']"]
    NewFile_reload [OF a m3, where lk = "''/idx''" and i = "''repo''" and serr = None
      and ls = "[''u1 u1.png'', ''garbage'']"]
    a' m1 m2 m3 s1 s2 s3 d2 d3 nf sp scan_index scan_corrupt
  show ?thesis
    by (simp add: NewFile_index_eval NewFile_corrupt_eval)
qed

lemma scan_space: "scan env0 w_space ''/idx'' = ([''u1 u1.png'', '' ''], None)"
  by (simp add: scan_def env0_def w_space_def dropCR_def)

lemma load_space:
  "load_loop lib_json env0 w_space ''/root'' [] [''u1 u1.png'', '' '']
     = Inl (Wrap (ErrOS ''unexpected end of JSON input'') ''failed to read index file item'')"
  by (simp add: lib_json_def lib0_def blank_def os_Stat_def env0_def w_space_def)

lemma NewFile_space:
  "NewFile lib_json env0 w_space ''repo'' ''/root'' ''/idx''
     = ((None, Some (Wrap (ErrOS ''unexpected end of JSON input'')
                       ''failed to read index file item'')), w_space)"
proof -
  have a: "(if filepath_IsAbs lib_json ''/root'' then Inr ''/root''
            else filepath_Abs lib_json ''/root'') = Inr ''/root''"
    by (simp add: lib_json_def lib0_def)
  have m: "os_MkdirAll env0 w_space ''/root'' = (None, w_space)"
    by (simp add: os_MkdirAll_def env0_def w_space_def)
  have s: "os_Stat env0 w_space ''/idx'' = None" and o: "os_Open env0 w_space ''/idx'' = None"
    by (simp_all add: os_Stat_def os_Open_def env0_def w_space_def)
  show ?thesis
    using NewFile_index [OF a m s o scan_space, of "''repo''", unfolded load_space]
    by simp
qed

lemma scan_notdir: "scan env_notdir w_notdir ''/idx'' = ([''u9 u1.png/x''], None)"
  by (simp add: scan_def env_notdir_def env0_def w_notdir_def dropCR_def)

lemma load_notdir:
  "load_loop lib0 env_notdir w_notdir ''/root'' [] [''u9 u1.png/x'']
     = Inr [(''u9'', \<lparr>ID = ''u9'', Format = FormatUnknown, Path = ''/root/u1.png/x'', Meta = None\<rparr>)]"
  by (simp add: lib0_def os_Stat_def env_notdir_def env0_def w_notdir_def)

lemma NewFile_notdir:
  "NewFile lib0 env_notdir w_notdir ''repo'' ''/root'' ''/idx''
     = ((Some \<lparr>id' = ''repo'', path = ''/root'', lockPath = ''/idx'',
               items = Some [(''u9'', \<lparr>ID = ''u9'', Format = FormatUnknown,
                                      Path = ''/root/u1.png/x'', Meta = None\<rparr>)]\<rparr>, None),
        w_notdir)"
proof -
  have a: "(if filepath_IsAbs lib0 ''/root'' then Inr ''/root'' else filepath_Abs lib0 ''/root'')
             = Inr ''/root''"
    by (simp add: lib0_def)
  have m: "os_MkdirAll env_notdir w_notdir ''/root'' = (None, w_notdir)"
    by (simp add: os_MkdirAll_def env_notdir_def env0_def w_notdir_def)
  have s: "os_Stat env_notdir w_notdir ''/idx'' = None"
    and o: "os_Open env_notdir w_notdir ''/idx'' = None"
    by (simp_all add: os_Stat_def os_Open_def env_notdir_def env0_def w_notdir_def)
  show ?thesis
    using NewFile_index [OF a m s o scan_notdir, of "''repo''", unfolded load_notdir]
    by simp
qed

lemma scan_dot: "scan env0 w_dot ''/idx'' = ([''u2 /root/./u2.png''], None)"
  by (simp add: scan_def env0_def w_dot_def dropCR_def)

lemma load_dot:
  "load_loop lib0 env0 w_dot ''/root'' [] [''u2 /root/./u2.png'']
     = Inr [(''u2'', \<lparr>ID = ''u2'', Format = FormatUnknown, Path = ''/root/./u2.png'', Meta = None\<rparr>)]"
  by (simp add: lib0_def os_Stat_def env0_def w_dot_def)

lemma NewFile_dot:
  "NewFile lib0 env0 w_dot ''repo'' ''/root'' ''/idx''
     = ((Some \<lparr>id' = ''repo'', path = ''/root'', lockPath = ''/idx'',
               items = Some [(''u2'', \<lparr>ID = ''u2'', Format = FormatUnknown,
                                      Path = ''/root/./u2.png'', Meta = None\<rparr>)]\<rparr>, None),
        w_dot)"
proof -
  have a: "(if filepath_IsAbs lib0 ''/root'' then Inr ''/root'' else filepath_Abs lib0 ''/root'')
             = Inr ''/root''"
    by (simp add: lib0_def)
  have m: "os_MkdirAll env0 w_dot ''/root'' = (None, w_dot)"
    by (simp add: os_MkdirAll_def env0_def w_dot_def)
  have s: "os_Stat env0 w_dot ''/idx'' = None" and o: "os_Open env0 w_dot ''/idx'' = None"
    by (simp_all add: os_Stat_def os_Open_def env0_def w_dot_def)
  show ?thesis
    using NewFile_index [OF a m s o scan_dot, of "''repo''", unfolded load_dot]
    by simp
qed

text \<open>
  The claim as the specification words it fails in three places. A line of one space is
  blank, and is not skipped: it is decoded, fails, and construction is refused. A record
  whose path names nothing is kept when \<open>os.Stat\<close> fails with another error than
  \<open>ErrNotExist\<close>. And a record whose path is absolute is stored with that path as it
  stands, not normalized.
\<close>

theorem NewFile_reload_counterexample:
  "blank '' ''
   \<and> scan env0 w_space ''/idx'' = ([''u1 u1.png'', '' ''], None)
   \<and> NewFile lib_json env0 w_space ''repo'' ''/root'' ''/idx''
       = ((None, Some (Wrap (ErrOS ''unexpected end of JSON input'')
                         ''failed to read index file item'')), w_space)
   \<and> \<not> on_disk w_notdir ''/root/u1.png/x''
   \<and> os_Stat env_notdir w_notdir ''/root/u1.png/x'' = Some (ErrOS ''not a directory'')
   \<and> Get (the (fst (fst (NewFile lib0 env_notdir w_notdir ''repo'' ''/root'' ''/idx'')))) ''u9''
       = Some \<lparr>ID = ''u9'', Format = FormatUnknown, Path = ''/root/u1.png/x'', Meta = None\<rparr>
   \<and> has_dot_element ''/root/./u2.png''
   \<and> Get (the (fst (fst (NewFile lib0 env0 w_dot ''repo'' ''/root'' ''/idx'')))) ''u2''
       = Some \<lparr>ID = ''u2'', Format = FormatUnknown, Path = ''/root/./u2.png'', Meta = None\<rparr>"
proof -
  have b: "blank '' ''" by (simp add: blank_def)
  have d: "\<not> on_disk w_notdir ''/root/u1.png/x''"
    by (simp add: on_disk_def w_notdir_def)
  have st: "os_Stat env_notdir w_notdir ''/root/u1.png/x'' = Some (ErrOS ''not a directory'')"
    by (simp add: os_Stat_def env_notdir_def)
  have h: "has_dot_element ''/root/./u2.png''" by simp
  have g1: "Get (the (fst (fst (NewFile lib0 env_notdir w_notdir ''repo'' ''/root'' ''/idx'')))) ''u9''
       = Some \<lparr>ID = ''u9'', Format = FormatUnknown, Path = ''/root/u1.png/x'', Meta = None\<rparr>"
    by (simp add: NewFile_notdir Get_def)
  have g2: "Get (the (fst (fst (NewFile lib0 env0 w_dot ''repo'' ''/root'' ''/idx'')))) ''u2''
       = Some \<lparr>ID = ''u2'', Format = FormatUnknown, Path = ''/root/./u2.png'', Meta = None\<rparr>"
    by (simp add: NewFile_dot Get_def)
  from b scan_space NewFile_space d st g1 h g2 show ?thesis by blast
qed

subsection \<open>Remove and the index\<close>

text \<open>
  \<open>save\<close> opens the index without \<open>O_TRUNC\<close>. Run on a disk that has an index, it
  behaves as on the disk without one, except that the older content stays behind the
  bytes written.
\<close>

lemma put_bytes_stale:
  assumes "\<not> f_append f" and "f_pos f = length (content v (f_path f))"
    and "put_bytes v f b = (f', v')"
  shows "put_bytes (stale v (f_path f) c) f b = (f', stale v' (f_path f) c)
       \<and> \<not> f_append f' \<and> f_path f' = f_path f \<and> f_pos f' = length (content v' (f_path f))"
  using assms
  by (auto simp: put_bytes_def stale_def content_def pwrite_def Let_def add.commute)

lemma File_Write_stale:
  assumes "\<not> f_append f" and "f_pos f = length (content v (f_path f))"
    and "File_Write E v f b = (e, f', v')"
  shows "File_Write E (stale v (f_path f) c) f b = (e, f', stale v' (f_path f) c)
       \<and> \<not> f_append f' \<and> f_path f' = f_path f \<and> f_pos f' = length (content v' (f_path f))"
proof (cases "write_fault E (f_path f) (f_writes f)")
  case None
  with assms(3) have "put_bytes v f b = (f', v')" and "e = None"
    by (simp_all add: File_Write_def)
  with put_bytes_stale [OF assms(1,2), of b f' v' c] None show ?thesis
    by (simp add: File_Write_def)
next
  case (Some ne)
  obtain n e0 where ne: "ne = (n, e0)" by (cases ne)
  with Some assms(3) have "put_bytes v f (take n b) = (f', v')" and "e = Some e0"
    by (simp_all add: File_Write_def)
  with put_bytes_stale [OF assms(1,2), of "take n b" f' v' c] Some ne show ?thesis
    by (simp add: File_Write_def)
qed

lemma write_stale:
  assumes "\<not> f_append f" and "f_pos f = length (content v (f_path f))"
    and "write' r L E v f m = (e, f', v')"
  shows "write' r L E (stale v (f_path f) c) f m = (e, f', stale v' (f_path f) c)
       \<and> \<not> f_append f' \<and> f_path f' = f_path f \<and> f_pos f' = length (content v' (f_path f))"
proof -
  let ?m = "\<lparr>ID = ID m, Format = Format m,
             Path = (case filepath_Rel L (path r) (Path m) of Inl err0 \<Rightarrow> Path m | Inr p \<Rightarrow> p),
             Meta = Meta m\<rparr>"
  show ?thesis
  proof (cases "json_Marshal L ?m")
    case (Inl err)
    with assms show ?thesis by (auto simp: write'_def Let_def)
  next
    case (Inr b)
    obtain e1 f1 v1 where w: "File_Write E v f (b @ [CHR 0x0A]) = (e1, f1, v1)"
      by (cases "File_Write E v f (b @ [CHR 0x0A])") auto
    from File_Write_stale [OF assms(1,2) w, of c] w Inr assms(3) show ?thesis
      by (cases e1) (auto simp: write'_def Let_def)
  qed
qed

lemma save_loop_stale:
  assumes "\<not> f_append f" and "f_pos f = length (content v (f_path f))"
    and "save_loop r L E v f ms = (e, f', v')"
  shows "save_loop r L E (stale v (f_path f) c) f ms = (e, f', stale v' (f_path f) c)"
  using assms
proof (induction ms arbitrary: f v)
  case Nil
  then show ?case by simp
next
  case (Cons km ms)
  obtain e1 f1 v1 where w: "write' r L E v f (snd km) = (e1, f1, v1)"
    by (cases "write' r L E v f (snd km)") auto
  note s = write_stale [OF Cons.prems(1,2) w, of c]
  show ?case
  proof (cases e1)
    case None
    with w Cons.prems(3) have "save_loop r L E v1 f1 ms = (e, f', v')" by simp
    with Cons.IH [of f1 v1] s have "save_loop r L E (stale v1 (f_path f1) c) f1 ms = (e, f', stale v' (f_path f1) c)"
      by simp
    with s None show ?thesis by simp
  next
    case (Some err)
    with w Cons.prems(3) s show ?thesis by auto
  qed
qed

lemma stale_created:
  assumes "files w p = Some c"
  shows "stale (w\<lparr>files := (files w)(p \<mapsto> [])\<rparr>) p c = w"
proof -
  have "(files w)(p \<mapsto> c) = files w"
    using assms by (auto simp: fun_eq_iff)
  then show ?thesis by (simp add: stale_def content_def)
qed

lemma save_keeps_tail:
  assumes "lockPath r \<noteq> []" and "open_fault E (lockPath r) = None"
    and "files w (lockPath r) = Some c"
    and "save r L E (w\<lparr>files := (files w)(lockPath r := None)\<rparr>) = (e, v)"
  shows "save r L E w = (e, stale v (lockPath r) c)"
proof -
  let ?p = "lockPath r"
  let ?f = "\<lparr>f_path = ?p, f_pos = 0, f_append = False, f_writes = 0\<rparr>"
  let ?v0 = "w\<lparr>files := (files w)(?p \<mapsto> [])\<rparr>"
  obtain e1 f1 v1 where l: "save_loop r L E ?v0 ?f (range_map E (items r)) = (e1, f1, v1)"
    by (cases "save_loop r L E ?v0 ?f (range_map E (items r))") auto
  have o1: "os_OpenFile E (w\<lparr>files := (files w)(?p := None)\<rparr>) ?p [O_WRONLY, O_CREATE]
              = (Inr ?f, ?v0)"
    using assms(2) by (simp add: os_OpenFile_def)
  have o2: "os_OpenFile E w ?p [O_WRONLY, O_CREATE] = (Inr ?f, w)"
    using assms(2,3) by (simp add: os_OpenFile_def)
  from assms(1,4) o1 l have ev: "e = deferred_close E f1 ''failed to close index file'' e1" "v = v1"
    by (simp_all add: save_def)
  have "save_loop r L E (stale ?v0 (f_path ?f) c) ?f (range_map E (items r))
          = (e1, f1, stale v1 (f_path ?f) c)"
    by (rule save_loop_stale [OF _ _ l]) (simp_all add: content_def)
  then have "save_loop r L E w ?f (range_map E (items r)) = (e1, f1, stale v1 ?p c)"
    using stale_created [OF assms(3)] by simp
  with assms(1) o2 ev show ?thesis by (simp add: save_def)
qed

lemma Remove_keeps_tail:
  assumes "lockPath r \<noteq> []" and "open_fault E (lockPath r) = None"
    and "files w (lockPath r) = Some c"
    and "Remove r L E (w\<lparr>files := (files w)(lockPath r := None)\<rparr>) i = (e, r', v)"
  shows "Remove r L E w i = (e, r', stale v (lockPath r) c)"
proof -
  let ?r = "r\<lparr>items := map_option (AList.delete i) (items r)\<rparr>"
  from assms(4) have s: "save ?r L E (w\<lparr>files := (files w)(lockPath ?r := None)\<rparr>) = (e, v)"
    and r': "r' = ?r"
    by (auto simp: Remove_def Let_def split: prod.splits)
  have "save ?r L E w = (e, stale v (lockPath ?r) c)"
    by (rule save_keeps_tail [OF _ _ _ s]) (use assms in simp_all)
  with r' show ?thesis by (simp add: Remove_def Let_def)
qed

lemma NewFile_assets:
  "NewFile lib0 env0 w_assets ''repo'' ''/root'' ''/idx''
     = ((Some \<lparr>id' = ''repo'', path = ''/root'', lockPath = ''/idx'', items = None\<rparr>, None), w_assets)"
  by (simp add: NewFile_def lib0_def os_MkdirAll_def env0_def os_Stat_def w_assets_def)

lemma two_Adds:
  "run_ops lib0 (\<lparr>id' = ''repo'', path = ''/root'', lockPath = ''/idx'', items = None\<rparr>, w_assets)
     [OpAdd env0 mA, OpAdd env0 mB] = (r0, w0)"
  apply (simp add: run_ops_def Add_def Let_def saveSingle_def os_OpenFile_def env0_def w_assets_def
      write'_def lib0_def mA_def mB_def File_Write_def put_bytes_def content_def pwrite_def
      deferred_close_def File_Close_def r0_def w0_def)
  apply (rule ext)
  apply simp
  done

lemma Remove_u2:
  "Remove r0 lib0 env0 w0 ''u2'' = (None, r0\<lparr>items := Some [(''u1'', mA)]\<rparr>, w0)"
  apply (simp add: Remove_def save_def r0_def w0_def env0_def lib0_def os_OpenFile_def
      range_map_def rand_Shuffle_def swap_def write'_def File_Write_def put_bytes_def
      content_def pwrite_def deferred_close_def File_Close_def mA_def mB_def AList.delete_eq)
  apply (rule ext)
  apply simp
  done

lemma save_fresh:
  "save (r0\<lparr>items := Some [(''u1'', mA)]\<rparr>) lib0 env0 w_assets
     = (None, w_assets\<lparr>files := (files w_assets)(''/idx'' \<mapsto> ''u1 u1.png'' @ [CHR 0x0A])\<rparr>)"
  by (simp add: save_def r0_def w_assets_def env0_def lib0_def os_OpenFile_def
      range_map_def rand_Shuffle_def swap_def write'_def File_Write_def put_bytes_def
      content_def pwrite_def deferred_close_def File_Close_def mA_def)

lemma reload_w0:
  "NewFile lib0 env0 w0 ''repo'' ''/root'' ''/idx'' = ((Some r0, None), w0)"
  by (simp add: NewFile_def os_MkdirAll_def os_Stat_def os_Open_def scan_def dropCR_def
        r0_def mA_def mB_def w0_def env0_def)
     (simp add: lib0_def os_Stat_def)

text \<open>
  Claim C1, where the code departs from it. From a fresh repository at \<open>/root\<close> two
  calls of \<open>Add\<close> give \<open>r0\<close> and the index of two lines. \<open>Remove\<close> of \<open>u2\<close>
  then returns no error and takes \<open>u2\<close> out of the map, yet the disk is what it was:
  the index still holds the line of \<open>u2\<close>, where the serialization of the surviving
  items alone (what \<open>save\<close> writes when there is no index) is the one line of \<open>u1\<close>.
  A reload of that index brings \<open>u2\<close> back.
\<close>

theorem Remove_leaves_stale_index:
  "NewFile lib0 env0 w_assets ''repo'' ''/root'' ''/idx''
     = ((Some \<lparr>id' = ''repo'', path = ''/root'', lockPath = ''/idx'', items = None\<rparr>, None),
        w_assets)
   \<and> run_ops lib0
        (\<lparr>id' = ''repo'', path = ''/root'', lockPath = ''/idx'', items = None\<rparr>, w_assets)
        [OpAdd env0 mA, OpAdd env0 mB] = (r0, w0)
   \<and> Remove r0 lib0 env0 w0 ''u2'' = (None, r0\<lparr>items := Some [(''u1'', mA)]\<rparr>, w0)
   \<and> content w0 ''/idx'' = ''u1 u1.png'' @ [CHR 0x0A] @ ''u2 u2.png'' @ [CHR 0x0A]
   \<and> save (r0\<lparr>items := Some [(''u1'', mA)]\<rparr>) lib0 env0 w_assets
       = (None, w_assets\<lparr>files := (files w_assets)(''/idx'' \<mapsto> ''u1 u1.png'' @ [CHR 0x0A])\<rparr>)
   \<and> NewFile lib0 env0 w0 ''repo'' ''/root'' ''/idx'' = ((Some r0, None), w0)"
proof -
  have "content w0 ''/idx'' = ''u1 u1.png'' @ [CHR 0x0A] @ ''u2 u2.png'' @ [CHR 0x0A]"
    by (simp add: content_def w0_def)
  with NewFile_assets two_Adds Remove_u2 save_fresh reload_w0 show ?thesis
    by blast
qed

subsection \<open>Every repository the operations build is well-formed\<close>

text \<open>
  The assumption \<open>repo_inv\<close> of the sampling theorem holds for the repositories of
  \<open>NewMemory\<close> and \<open>NewFile\<close>, and \<open>Add\<close>, \<open>Remove\<close> and \<open>Create\<close> keep it,
  whatever they return.
\<close>

lemma repo_inv_NewMemory: "repo_inv (NewMemory i)"
  by (simp add: repo_inv_def NewMemory_def)

lemma update_inv:
  assumes "distinct (map fst al)" and "list_all (\<lambda>km. ID (snd km) = fst km) al"
  shows "distinct (map fst (AList.update (ID m) m al))
       \<and> list_all (\<lambda>km. ID (snd km) = fst km) (AList.update (ID m) m al)"
proof -
  have "list_all (\<lambda>km. ID (snd km) = fst km) (AList.update (ID m) m al)"
    using assms(2) by (induction al) auto
  with assms(1) show ?thesis by (simp add: distinct_update)
qed

lemma delete_inv:
  assumes "distinct (map fst al)" and "list_all (\<lambda>km. ID (snd km) = fst km) al"
  shows "distinct (map fst (AList.delete i al))
       \<and> list_all (\<lambda>km. ID (snd km) = fst km) (AList.delete i al)"
proof -
  have "list_all (\<lambda>km. ID (snd km) = fst km) (AList.delete i al)"
    using assms(2) by (induction al) auto
  with assms(1) show ?thesis by (simp add: distinct_delete)
qed

lemma repo_inv_Add: "repo_inv r \<Longrightarrow> repo_inv (fst (snd (Add r L E w m)))"
  using update_inv [of _ m] update_inv [of "[]" m]
  by (cases "items r") (auto simp: Add_repo repo_inv_def)

lemma repo_inv_Remove: "repo_inv r \<Longrightarrow> repo_inv (fst (snd (Remove r L E w i)))"
  using delete_inv [of _ i]
  by (cases "items r") (auto simp: Remove_repo repo_inv_def)

lemma repo_inv_Create: "repo_inv r \<Longrightarrow> repo_inv (fst (snd (snd (Create r L E w b md))))"
  using Create_repo [of r L E w b md] by (auto simp: repo_inv_Add)

lemma load_loop_inv:
  assumes "load_loop L E w root al ls = Inr al'"
    and "distinct (map fst al)" and "list_all (\<lambda>km. ID (snd km) = fst km) al"
  shows "distinct (map fst al') \<and> list_all (\<lambda>km. ID (snd km) = fst km) al'"
  using assms
proof (induction ls arbitrary: al)
  case Nil
  then show ?case by simp
next
  case (Cons l ls)
  show ?case
  proof (cases "l = []")
    case True
    with Cons show ?thesis by simp
  next
    case False
    with Cons.prems(1) obtain m where m: "json_Unmarshal L l = Inr m"
      by (auto split: sum.splits)
    let ?e = "\<lparr>ID = ID m, Format = Format m,
               Path = (if filepath_IsAbs L (Path m) then Path m else filepath_Join L root (Path m)),
               Meta = Meta m\<rparr>"
    have "ID ?e = ID m" by simp
    with update_inv [OF Cons.prems(2,3), of ?e]
    have u: "distinct (map fst (AList.update (ID m) ?e al))
           \<and> list_all (\<lambda>km. ID (snd km) = fst km) (AList.update (ID m) ?e al)"
      by simp
    from Cons.prems(1) False m
    have "load_loop L E w root al ls = Inr al'
        \<or> load_loop L E w root (AList.update (ID m) ?e al) ls = Inr al'"
      by (auto simp: Let_def split: if_splits)
    with Cons.IH Cons.prems(2,3) u show ?thesis by blast
  qed
qed

lemma repo_inv_NewFile:
  assumes "NewFile L E w i p0 lk = ((Some r, e), w')"
  shows "repo_inv r"
proof -
  from assms have "items r = None \<or> (\<exists>root w1 ls al. load_loop L E w1 root [] ls = Inr al \<and> items r = Some al)"
    unfolding NewFile_def
    by (auto split: sum.splits prod.splits option.splits if_splits)
  then show ?thesis
    using load_loop_inv [where al = "[]"] by (auto simp: repo_inv_def)
qed

lemma repo_inv_run_ops:
  "repo_inv (fst rw) \<Longrightarrow> repo_inv (fst (run_ops L rw ops))"
  unfolding run_ops_def
proof (induction ops arbitrary: rw)
  case Nil
  then show ?case by simp
next
  case (Cons x ops)
  obtain r w where rw: "rw = (r, w)" by (cases rw)
  with Cons.prems have "repo_inv (fst (apply_op L rw x))"
    by (cases x) (simp_all add: repo_inv_Add repo_inv_Remove repo_inv_Create)
  with Cons.IH show ?case by simp
qed

end
